theory Spec2Isabelle
  imports Main
begin

section \<open>JavaScript values and the platform functions the server calls\<close>

text \<open>
  The server (\<^verbatim>\<open>index.ts\<close>, with \<^verbatim>\<open>api-client.ts\<close> and \<^verbatim>\<open>types.ts\<close>) is TypeScript
  whose casts (\<^verbatim>\<open>args?.profile_id as string\<close>) are not checked at run time, so a tool argument
  is a dynamically typed value. Numbers are modelled as integers: the code compares them with
  profile ordinals and prints them, and the ordinals are small integers; fractional numbers,
  \<^verbatim>\<open>NaN\<close> passed as a number and integers beyond the exact range of a double are outside
  the model. Strings are lists of \<^typ>\<open>char\<close>.
\<close>

datatype jsval = JUndefined | JNull | JBool bool | JNum int | JStr string

text \<open>Truthiness, as \<^verbatim>\<open>if (v)\<close>, \<^verbatim>\<open>!v\<close> and \<^verbatim>\<open>v || d\<close> test it.\<close>

fun truthy :: "jsval \<Rightarrow> bool" where
  "truthy JUndefined = False"
| "truthy JNull = False"
| "truthy (JBool b) = b"
| "truthy (JNum n) = (n \<noteq> 0)"
| "truthy (JStr s) = (s \<noteq> [])"

text \<open>The decimal digits, and the place of a character in a string.\<close>

definition position :: "char \<Rightarrow> string \<Rightarrow> nat" where
  "position c s = length (takeWhile (\<lambda>x. x \<noteq> c) s)"

definition digit_char :: "nat \<Rightarrow> char" where
  "digit_char d = ''0123456789'' ! (d mod 10)"

definition is_digit :: "char \<Rightarrow> bool" where
  "is_digit c = (c \<in> set ''0123456789'')"

definition digit_value :: "char \<Rightarrow> nat" where
  "digit_value c = position c ''0123456789''"

text \<open>\<^verbatim>\<open>String(n)\<close> for an integer-valued number: its decimal digits, with a minus sign.\<close>

fun nat_to_string :: "nat \<Rightarrow> string" where
  "nat_to_string n =
     (if n < 10 then [digit_char n] else nat_to_string (n div 10) @ [digit_char (n mod 10)])"

declare nat_to_string.simps [simp del]

definition number_to_string :: "int \<Rightarrow> string" where
  "number_to_string i =
     (if i < 0 then CHR ''-'' # nat_to_string (nat (- i)) else nat_to_string (nat i))"

text \<open>\<^verbatim>\<open>String(v)\<close>, which is also what a template literal \<^verbatim>\<open>`${v}`\<close> inserts.\<close>

fun js_String :: "jsval \<Rightarrow> string" where
  "js_String JUndefined = ''undefined''"
| "js_String JNull = ''null''"
| "js_String (JBool b) = (if b then ''true'' else ''false'')"
| "js_String (JNum n) = number_to_string n"
| "js_String (JStr s) = s"

text \<open>
  \<^verbatim>\<open>s.replace('#', '')\<close> with a string pattern removes the first \<^verbatim>\<open>#\<close> of the string,
  wherever it stands.
\<close>

fun replace_hash :: "string \<Rightarrow> string" where
  "replace_hash [] = []"
| "replace_hash (c # cs) = (if c = CHR ''#'' then cs else c # replace_hash cs)"

text \<open>
  \<^verbatim>\<open>parseInt(s, 10)\<close>: leading white space is skipped, one sign is read, then the longest
  run of decimal digits; no digit gives \<^verbatim>\<open>NaN\<close>, here \<^term>\<open>None\<close>. What follows the
  digits is ignored. The white space is the ASCII part of what ECMAScript skips.
\<close>

definition is_space :: "char \<Rightarrow> bool" where
  "is_space c = (c \<in> set [CHR 0x09, CHR 0x0A, CHR 0x0B, CHR 0x0C, CHR 0x0D, CHR '' ''])"

definition digits_value :: "string \<Rightarrow> nat" where
  "digits_value ds = foldl (\<lambda>a c. 10 * a + digit_value c) 0 ds"

definition parseInt :: "string \<Rightarrow> int option" where
  "parseInt s =
     (let t = dropWhile is_space s;
          neg = (t \<noteq> [] \<and> hd t = CHR ''-'');
          u = (if t \<noteq> [] \<and> (hd t = CHR ''-'' \<or> hd t = CHR ''+'') then tl t else t);
          ds = takeWhile is_digit u
      in if ds = [] then None
         else Some (if neg then - int (digits_value ds) else int (digits_value ds)))"


section \<open>The Remote Data Service and the transport client\<close>

text \<open>
  \<^verbatim>\<open>McpProfile\<close> of \<^verbatim>\<open>types.ts\<close>, with the fields the server reads. The field \<^verbatim>\<open>id\<close>
  is \<open>id'\<close> here, \<^verbatim>\<open>estimated_minutes\<close> is \<open>eta_minutes\<close>. \<^verbatim>\<open>mcp_data_status\<close> is
  optional and nullable, so it is a dynamically typed value.
\<close>

record McpProfile =
  number :: int
  id' :: string
  name :: string
  region :: string
  mcp_activated :: bool
  mcp_data_status :: jsval
  is_ready :: bool
  eta_minutes :: "int option"

record ImportProgress =
  unique_dates :: int
  expected_days :: int
  progress_percent :: int

record McpProfileStatusResponse =
  available :: bool
  reason :: string
  status_message :: string
  status_minutes :: "int option"
  import_progress :: "ImportProgress option"

record McpActivateResponse =
  activate_profile_id :: string
  activate_status :: "string option"
  activate_minutes :: "int option"

text \<open>
  Profiles, campaigns and keywords of the advertising account are payloads the server only
  formats: an \<open>entity\<close> is one such JSON object, and the templates that print its fields
  are the parameter \<open>render\<close> of the dispatcher below.
\<close>

typedecl entity

text \<open>
  The \<^verbatim>\<open>data\<close> member of a response. \<^verbatim>\<open>apiClient.get<T>\<close> casts it to the shape the
  endpoint is declared to return without a check; a payload of another shape lacks the
  member the handler reads.
\<close>

datatype payload =
    ProfilesData "entity list"
  | EntityData entity
  | CampaignsData "entity list" int
  | KeywordsData "entity list"
  | UpdateData
  | McpProfilesData "McpProfile list"
  | McpStatusData McpProfileStatusResponse
  | McpActivateData McpActivateResponse
  | OtherData

text \<open>
  \<^verbatim>\<open>ApiResponse\<close> of \<^verbatim>\<open>api-client.ts\<close>. A member that is absent is \<^term>\<open>None\<close>; for
  the two members the code only tests for truthiness (\<^verbatim>\<open>success\<close>, \<^verbatim>\<open>data_not_ready\<close>)
  absent is \<^term>\<open>False\<close>. The update tools hand \<^verbatim>\<open>message\<close> on as it is, without
  converting it to a string, so it is a dynamically typed value, \<^term>\<open>JUndefined\<close> when
  absent.
\<close>

record ApiResponse =
  success :: bool
  data :: "payload option"
  error :: "string option"
  message :: jsval
  data_not_ready :: bool
  status :: "string option"
  estimated_minutes :: "int option"

datatype http_method = GET | POST | PATCH

text \<open>
  An outbound call: the endpoint below \<^verbatim>\<open>${apiUrl}/api\<close> and the query parameters or the
  JSON body. Every call carries the same bearer credential.
\<close>

record request =
  http_method :: http_method
  endpoint :: string
  params :: "(string \<times> jsval) list"

text \<open>
  What \<^verbatim>\<open>fetch\<close> and \<^verbatim>\<open>response.json()\<close> give: a rejection with its message, or the
  status line and the parsed body (\<^term>\<open>None\<close> is the JSON text \<^verbatim>\<open>null\<close>).
\<close>

datatype http_result =
    Rejected string
  | Response nat string "ApiResponse option"

text \<open>
  The Remote Data Service answers a request knowing the requests made before it, so the
  profile listing may change between two calls of one invocation.
\<close>

type_synonym remote = "request list \<Rightarrow> request \<Rightarrow> http_result"

datatype fs_op = Mkdir | WriteFile | ReadFile | Unlink

text \<open>
  What the process can touch: the directory \<^verbatim>\<open>~/.ppc-prophet\<close> and the file
  \<^verbatim>\<open>context.json\<close> in it, the file-system calls that throw an I/O error, the requests
  sent so far, the lines logged to stderr (without their time stamp) and the clock reading
  \<^verbatim>\<open>new Date().toISOString()\<close> returns.
\<close>

record world =
  context_dir :: bool
  context_file :: "string option"
  fs_fault :: "fs_op \<Rightarrow> bool"
  sent :: "request list"
  stderr_log :: "string list"
  clock :: string

text \<open>What the code can throw, each with its message.\<close>

datatype js_error = TypeError string | SyntaxError string | SystemError string

definition error_message :: "js_error \<Rightarrow> string" where
  "error_message e = (case e of TypeError m \<Rightarrow> m | SyntaxError m \<Rightarrow> m | SystemError m \<Rightarrow> m)"

definition or_else :: "string option \<Rightarrow> string \<Rightarrow> string" where
  "or_else v d = (case v of None \<Rightarrow> d | Some s \<Rightarrow> if s = [] then d else s)"

definition failure :: "string \<Rightarrow> ApiResponse" where
  "failure e = \<lparr>success = False, data = None, error = Some e, message = JUndefined,
                 data_not_ready = False, status = None, estimated_minutes = None\<rparr>"

definition logError :: "string \<Rightarrow> world \<Rightarrow> world" where
  "logError m w = w\<lparr>stderr_log := stderr_log w @ [''ERROR: '' @ m]\<rparr>"

definition logInfo :: "string \<Rightarrow> world \<Rightarrow> world" where
  "logInfo m w = w\<lparr>stderr_log := stderr_log w @ [''INFO: '' @ m]\<rparr>"

definition method_name :: "http_method \<Rightarrow> string" where
  "method_name m = (case m of GET \<Rightarrow> ''GET'' | POST \<Rightarrow> ''POST'' | PATCH \<Rightarrow> ''PATCH'')"

definition null_read :: "string \<Rightarrow> string" where
  "null_read prop = ''Cannot read properties of null (reading '' @ [CHR 0x27] @ prop @ [CHR 0x27] @ '')''"

text \<open>
  \<^verbatim>\<open>ApiClient.request\<close>. The result is \<^term>\<open>None\<close> when the method resolves to
  \<^verbatim>\<open>null\<close> (status 2xx, body \<^verbatim>\<open>null\<close>). Reading \<^verbatim>\<open>data.error\<close> of a \<^verbatim>\<open>null\<close> body
  throws inside the \<^verbatim>\<open>try\<close> and is caught there.
\<close>

definition api_request :: "remote \<Rightarrow> request \<Rightarrow> world \<Rightarrow> ApiResponse option \<times> world" where
  "api_request rds rq w =
     (let w1 = w\<lparr>sent := sent w @ [rq]\<rparr>;
          caught = (\<lambda>m. (Some (failure (''Request failed: '' @ m)),
                          logError (''API request failed: '' @ method_name (http_method rq)
                                    @ '' '' @ endpoint rq) w1))
      in case rds (sent w) rq of
           Rejected m \<Rightarrow> caught m
         | Response code reason_phrase body \<Rightarrow>
             if \<not> (200 \<le> code \<and> code \<le> 299) then
               (case body of
                  None \<Rightarrow> caught (null_read ''error'')
                | Some d \<Rightarrow>
                    (Some (failure (or_else (error d)
                       (''HTTP '' @ nat_to_string code @ '': '' @ reason_phrase))), w1))
             else (body, w1))"

text \<open>
  \<^verbatim>\<open>ApiClient.get\<close> appends the parameters that are not \<^verbatim>\<open>undefined\<close>, \<^verbatim>\<open>null\<close> or
  the empty string to the URL; \<^verbatim>\<open>post\<close> and \<^verbatim>\<open>patch\<close> send \<^verbatim>\<open>JSON.stringify(body)\<close>,
  which leaves out a member that is \<^verbatim>\<open>undefined\<close>.
\<close>

definition api_get :: "remote \<Rightarrow> string \<Rightarrow> (string \<times> jsval) list \<Rightarrow> world \<Rightarrow> ApiResponse option \<times> world" where
  "api_get rds ep ps w =
     api_request rds \<lparr>http_method = GET, endpoint = ep,
        params = filter (\<lambda>(k, v). v \<noteq> JUndefined \<and> v \<noteq> JNull \<and> v \<noteq> JStr []) ps\<rparr> w"

definition api_post :: "remote \<Rightarrow> string \<Rightarrow> (string \<times> jsval) list \<Rightarrow> world \<Rightarrow> ApiResponse option \<times> world" where
  "api_post rds ep b w =
     api_request rds \<lparr>http_method = POST, endpoint = ep,
        params = filter (\<lambda>(k, v). v \<noteq> JUndefined) b\<rparr> w"

definition api_patch :: "remote \<Rightarrow> string \<Rightarrow> (string \<times> jsval) list \<Rightarrow> world \<Rightarrow> ApiResponse option \<times> world" where
  "api_patch rds ep b w =
     api_request rds \<lparr>http_method = PATCH, endpoint = ep,
        params = filter (\<lambda>(k, v). v \<noteq> JUndefined) b\<rparr> w"

text \<open>
  \<^verbatim>\<open>response.data.profiles\<close> of a listing from \<^verbatim>\<open>/v1/mcp/profiles\<close>; calling
  \<^verbatim>\<open>find\<close>, \<^verbatim>\<open>filter\<close> or \<^verbatim>\<open>length\<close> on a missing member throws.
\<close>

definition undefined_read :: "string \<Rightarrow> string" where
  "undefined_read prop =
     ''Cannot read properties of undefined (reading '' @ [CHR 0x27] @ prop @ [CHR 0x27] @ '')''"

definition mcp_profiles :: "string \<Rightarrow> payload \<Rightarrow> js_error + McpProfile list" where
  "mcp_profiles prop d =
     (case d of McpProfilesData ps \<Rightarrow> Inr ps | _ \<Rightarrow> Inl (TypeError (undefined_read prop)))"

section \<open>The profile resolver\<close>

text \<open>The object \<^verbatim>\<open>{ id, name, region }\<close> that \<^verbatim>\<open>resolveProfileId\<close> returns.\<close>

record resolved =
  resolved_id :: string
  resolved_name :: string
  resolved_region :: string

text \<open>
  \<^verbatim>\<open>resolveProfileId\<close>: \<^term>\<open>Inr None\<close> is the \<^verbatim>\<open>null\<close> it returns, \<^term>\<open>Inl e\<close> an
  exception it lets through. \<open>reference_number\<close> is its \<^verbatim>\<open>num\<close>. An input that parses
  as an integer but matches no ordinal of the listing falls out of the \<^verbatim>\<open>if\<close> to the last
  \<^verbatim>\<open>return\<close>.
\<close>

definition reference_number :: "jsval \<Rightarrow> int option" where
  "reference_number input =
     (case input of JNum n \<Rightarrow> Some n | _ \<Rightarrow> parseInt (replace_hash (js_String input)))"

definition resolveProfileId :: "remote \<Rightarrow> jsval \<Rightarrow> world \<Rightarrow> (js_error + resolved option) \<times> world" where
  "resolveProfileId rds input w =
     (let num = reference_number input;
          as_hash = Inr (Some \<lparr>resolved_id = js_String input, resolved_name = [],
                               resolved_region = []\<rparr>)
      in case num of
           None \<Rightarrow> (as_hash, w)
         | Some n \<Rightarrow>
             (case api_get rds ''/v1/mcp/profiles'' [] w of
                (None, w1) \<Rightarrow> (Inl (TypeError (null_read ''success'')), w1)
              | (Some response, w1) \<Rightarrow>
                  if \<not> success response \<or> data response = None then (Inr None, w1)
                  else
                    (case mcp_profiles ''find'' (the (data response)) of
                       Inl e \<Rightarrow> (Inl e, w1)
                     | Inr ps \<Rightarrow>
                         (case find (\<lambda>p. number p = n) ps of
                            Some profile \<Rightarrow>
                              (Inr (Some \<lparr>resolved_id = id' profile,
                                          resolved_name = name profile,
                                          resolved_region = region profile\<rparr>), w1)
                          | None \<Rightarrow> (as_hash, w1)))))"

section \<open>The working-context store\<close>

text \<open>
  \<^verbatim>\<open>ProfileContext\<close>. Its member \<^verbatim>\<open>region\<close> is \<open>contextRegion\<close> here.
\<close>

record ProfileContext =
  profileId :: string
  profileNumber :: int
  profileName :: string
  contextRegion :: string
  setAt :: string

text \<open>
  A parsed JSON text. A number written with a fraction or an exponent is kept as its
  lexeme. Members of an object are in the order of the text, a repeated key keeping its
  first place and its last value; only \<open>property\<close> below reads them, by key.
\<close>

datatype json =
    JsonNull
  | JsonBool bool
  | JsonNum int
  | JsonFrac string
  | JsonStr string
  | JsonArr "json list"
  | JsonObj "(string \<times> json) list"

definition hex_char :: "nat \<Rightarrow> char" where
  "hex_char d = ''0123456789abcdef'' ! (d mod 16)"

text \<open>
  \<^verbatim>\<open>JSON.stringify\<close> of a string: the quotation mark, the backslash and the control
  characters are escaped, every other character is copied.
\<close>

definition json_escape_char :: "char \<Rightarrow> string" where
  "json_escape_char c =
     (if c = CHR 0x22 then [CHR 0x5C, CHR 0x22]
      else if c = CHR 0x5C then [CHR 0x5C, CHR 0x5C]
      else if c = CHR 0x08 then [CHR 0x5C, CHR ''b'']
      else if c = CHR 0x0C then [CHR 0x5C, CHR ''f'']
      else if c = CHR 0x0A then [CHR 0x5C, CHR ''n'']
      else if c = CHR 0x0D then [CHR 0x5C, CHR ''r'']
      else if c = CHR 0x09 then [CHR 0x5C, CHR ''t'']
      else if (of_char c :: nat) < 0x20 then
        [CHR 0x5C, CHR ''u'', CHR ''0'', CHR ''0'',
         hex_char (of_char c div 16), hex_char (of_char c mod 16)]
      else [c])"

definition json_escape :: "string \<Rightarrow> string" where
  "json_escape s = concat (map json_escape_char s)"

definition json_quote :: "string \<Rightarrow> string" where
  "json_quote s = CHR 0x22 # json_escape s @ [CHR 0x22]"

text \<open>
  \<^verbatim>\<open>JSON.stringify(context, null, 2)\<close> of a \<^verbatim>\<open>ProfileContext\<close>: one member a line, in
  the order the object literal gives them, indented by two spaces.
\<close>

definition json_member :: "string \<Rightarrow> string \<Rightarrow> string" where
  "json_member k v = ''  '' @ json_quote k @ '': '' @ v"

definition stringify_context :: "ProfileContext \<Rightarrow> string" where
  "stringify_context c =
     ''{'' @ [CHR 0x0A]
     @ json_member ''profileId'' (json_quote (profileId c)) @ '','' @ [CHR 0x0A]
     @ json_member ''profileNumber'' (number_to_string (profileNumber c)) @ '','' @ [CHR 0x0A]
     @ json_member ''profileName'' (json_quote (profileName c)) @ '','' @ [CHR 0x0A]
     @ json_member ''region'' (json_quote (contextRegion c)) @ '','' @ [CHR 0x0A]
     @ json_member ''setAt'' (json_quote (setAt c)) @ [CHR 0x0A]
     @ ''}''"

text \<open>The object \<^verbatim>\<open>JSON.parse\<close> gives back for that text.\<close>

definition context_json :: "ProfileContext \<Rightarrow> json" where
  "context_json c =
     JsonObj [(''profileId'', JsonStr (profileId c)),
              (''profileNumber'', JsonNum (profileNumber c)),
              (''profileName'', JsonStr (profileName c)),
              (''region'', JsonStr (contextRegion c)),
              (''setAt'', JsonStr (setAt c))]"

text \<open>
  \<^verbatim>\<open>JSON.parse\<close>, by recursive descent. \<^term>\<open>None\<close> is the \<^verbatim>\<open>SyntaxError\<close> it throws.
\<close>

definition is_json_ws :: "char \<Rightarrow> bool" where
  "is_json_ws c = (c = CHR '' '' \<or> c = CHR 0x09 \<or> c = CHR 0x0A \<or> c = CHR 0x0D)"

definition skip_ws :: "string \<Rightarrow> string" where
  "skip_ws s = dropWhile is_json_ws s"

definition hex_value :: "char \<Rightarrow> nat option" where
  "hex_value c =
     (if c \<in> set ''0123456789abcdef'' then Some (position c ''0123456789abcdef'')
      else if c \<in> set ''ABCDEF'' then Some (10 + position c ''ABCDEF'')
      else None)"

definition unescape :: "char \<Rightarrow> char option" where
  "unescape e =
     (if e = CHR 0x22 then Some (CHR 0x22)
      else if e = CHR 0x5C then Some (CHR 0x5C)
      else if e = CHR ''/'' then Some (CHR ''/'')
      else if e = CHR ''b'' then Some (CHR 0x08)
      else if e = CHR ''f'' then Some (CHR 0x0C)
      else if e = CHR ''n'' then Some (CHR 0x0A)
      else if e = CHR ''r'' then Some (CHR 0x0D)
      else if e = CHR ''t'' then Some (CHR 0x09)
      else None)"

text \<open>
  The characters a \<^verbatim>\<open>\uXXXX\<close> escape stands for, as the bytes of its UTF-8 form
  (strings here are what the file holds); the two halves of a surrogate pair are not
  joined. \<^verbatim>\<open>JSON.stringify\<close> writes such an escape for a control character only.
\<close>

definition utf8_encode :: "nat \<Rightarrow> string" where
  "utf8_encode n =
     (if n < 0x80 then [char_of n]
      else if n < 0x800 then [char_of (0xC0 + n div 64), char_of (0x80 + n mod 64)]
      else [char_of (0xE0 + n div 4096), char_of (0x80 + (n div 64) mod 64),
            char_of (0x80 + n mod 64)])"

definition hex4 :: "char \<Rightarrow> char \<Rightarrow> char \<Rightarrow> char \<Rightarrow> nat option" where
  "hex4 a b c d =
     (case (hex_value a, hex_value b, hex_value c, hex_value d) of
        (Some p, Some q, Some r, Some s) \<Rightarrow> Some (((p * 16 + q) * 16 + r) * 16 + s)
      | _ \<Rightarrow> None)"

text \<open>The characters of a string after its opening quotation mark, and what follows it.\<close>

fun string_body :: "string \<Rightarrow> (string \<times> string) option" where
  "string_body [] = None"
| "string_body (c # cs) =
     (if c = CHR 0x22 then Some ([], cs)
      else if c = CHR 0x5C then
        (case cs of
           [] \<Rightarrow> None
         | e # r \<Rightarrow>
             if e = CHR ''u'' then
               (case r of
                  h1 # h2 # h3 # h4 # r' \<Rightarrow>
                    (case hex4 h1 h2 h3 h4 of
                       None \<Rightarrow> None
                     | Some n \<Rightarrow>
                         (case string_body r' of
                            None \<Rightarrow> None
                          | Some (s, rest) \<Rightarrow> Some (utf8_encode n @ s, rest)))
                | _ \<Rightarrow> None)
             else
               (case unescape e of
                  None \<Rightarrow> None
                | Some ch \<Rightarrow>
                    (case string_body r of
                       None \<Rightarrow> None
                     | Some (s, rest) \<Rightarrow> Some (ch # s, rest))))
      else if (of_char c :: nat) < 0x20 then None
      else
        (case string_body cs of
           None \<Rightarrow> None
         | Some (s, rest) \<Rightarrow> Some (c # s, rest)))"

text \<open>
  A number: \<^verbatim>\<open>-\<close>, the integer part (\<^verbatim>\<open>0\<close> alone, or digits not starting with
  \<^verbatim>\<open>0\<close>), a fraction, an exponent.
\<close>

definition int_part :: "string \<Rightarrow> (string \<times> string) option" where
  "int_part s =
     (case s of
        [] \<Rightarrow> None
      | c # cs \<Rightarrow>
          if c = CHR ''0'' then Some ([c], cs)
          else if is_digit c then Some (takeWhile is_digit s, dropWhile is_digit s)
          else None)"

definition frac_part :: "string \<Rightarrow> (string \<times> string) option" where
  "frac_part s =
     (case s of
        [] \<Rightarrow> Some ([], s)
      | c # cs \<Rightarrow>
          if c = CHR ''.'' then
            (if takeWhile is_digit cs = [] then None
             else Some (c # takeWhile is_digit cs, dropWhile is_digit cs))
          else Some ([], s))"

definition exp_part :: "string \<Rightarrow> (string \<times> string) option" where
  "exp_part s =
     (case s of
        [] \<Rightarrow> Some ([], s)
      | c # cs \<Rightarrow>
          if c = CHR ''e'' \<or> c = CHR ''E'' then
            (let sign = (if cs \<noteq> [] \<and> (hd cs = CHR ''+'' \<or> hd cs = CHR ''-'') then [hd cs] else []);
                 ds = drop (length sign) cs
             in if takeWhile is_digit ds = [] then None
                else Some (c # sign @ takeWhile is_digit ds, dropWhile is_digit ds))
          else Some ([], s))"

definition parse_number :: "string \<Rightarrow> (json \<times> string) option" where
  "parse_number s =
     (let neg = (s \<noteq> [] \<and> hd s = CHR ''-'');
          s1 = (if neg then tl s else s)
      in case int_part s1 of
           None \<Rightarrow> None
         | Some (ds, s2) \<Rightarrow>
             (case frac_part s2 of
                None \<Rightarrow> None
              | Some (fr, s3) \<Rightarrow>
                  (case exp_part s3 of
                     None \<Rightarrow> None
                   | Some (ex, s4) \<Rightarrow>
                       if fr = [] \<and> ex = [] then
                         Some (JsonNum (if neg then - int (digits_value ds)
                                        else int (digits_value ds)), s4)
                       else Some (JsonFrac ((if neg then ''-'' else []) @ ds @ fr @ ex), s4))))"

definition put_member :: "string \<Rightarrow> json \<Rightarrow> (string \<times> json) list \<Rightarrow> (string \<times> json) list" where
  "put_member k v ms =
     (if k \<in> fst ` set ms then map (\<lambda>(k', v'). if k' = k then (k', v) else (k', v')) ms
      else ms @ [(k, v)])"

text \<open>
  The descent is bounded by fuel: every call of \<open>parse_value\<close>, \<open>parse_members\<close> and
  \<open>parse_elements\<close> spends one unit, and \<open>json_parse\<close> starts with one unit more than
  the text has characters. \<open>parse_members\<close> and \<open>parse_elements\<close> start at a member and
  at an element, with those read so far.
\<close>

fun parse_value :: "nat \<Rightarrow> string \<Rightarrow> (json \<times> string) option"
  and parse_members :: "nat \<Rightarrow> (string \<times> json) list \<Rightarrow> string \<Rightarrow> (json \<times> string) option"
  and parse_elements :: "nat \<Rightarrow> json list \<Rightarrow> string \<Rightarrow> (json \<times> string) option"
where
  "parse_value 0 s = None"
| "parse_value (Suc f) s =
     (case skip_ws s of
        [] \<Rightarrow> None
      | c # cs \<Rightarrow>
          if c = CHR ''{'' then
            (case skip_ws cs of
               [] \<Rightarrow> None
             | d # ds \<Rightarrow> if d = CHR ''}'' then Some (JsonObj [], ds)
                         else parse_members f [] (d # ds))
          else if c = CHR ''['' then
            (case skip_ws cs of
               [] \<Rightarrow> None
             | d # ds \<Rightarrow> if d = CHR '']'' then Some (JsonArr [], ds)
                         else parse_elements f [] (d # ds))
          else if c = CHR 0x22 then
            (case string_body cs of
               None \<Rightarrow> None
             | Some (str, rest) \<Rightarrow> Some (JsonStr str, rest))
          else if c = CHR ''-'' \<or> is_digit c then parse_number (c # cs)
          else if take 4 (c # cs) = ''true'' then Some (JsonBool True, drop 4 (c # cs))
          else if take 5 (c # cs) = ''false'' then Some (JsonBool False, drop 5 (c # cs))
          else if take 4 (c # cs) = ''null'' then Some (JsonNull, drop 4 (c # cs))
          else None)"
| "parse_members 0 ms s = None"
| "parse_members (Suc f) ms s =
     (case s of
        [] \<Rightarrow> None
      | c # cs \<Rightarrow>
          if c \<noteq> CHR 0x22 then None
          else
            (case string_body cs of
               None \<Rightarrow> None
             | Some (k, s1) \<Rightarrow>
                 (case skip_ws s1 of
                    [] \<Rightarrow> None
                  | d # s2 \<Rightarrow>
                      if d \<noteq> CHR '':'' then None
                      else
                        (case parse_value f s2 of
                           None \<Rightarrow> None
                         | Some (v, s3) \<Rightarrow>
                             (case skip_ws s3 of
                                [] \<Rightarrow> None
                              | e # s4 \<Rightarrow>
                                  if e = CHR ''}'' then Some (JsonObj (put_member k v ms), s4)
                                  else if e = CHR '','' then
                                    parse_members f (put_member k v ms) (skip_ws s4)
                                  else None)))))"
| "parse_elements 0 vs s = None"
| "parse_elements (Suc f) vs s =
     (case parse_value f s of
        None \<Rightarrow> None
      | Some (v, s1) \<Rightarrow>
          (case skip_ws s1 of
             [] \<Rightarrow> None
           | e # s2 \<Rightarrow>
               if e = CHR '']'' then Some (JsonArr (vs @ [v]), s2)
               else if e = CHR '','' then parse_elements f (vs @ [v]) s2
               else None))"

definition json_parse :: "string \<Rightarrow> json option" where
  "json_parse s =
     (case parse_value (Suc (length s)) s of
        None \<Rightarrow> None
      | Some (v, rest) \<Rightarrow> if skip_ws rest = [] then Some v else None)"

text \<open>
  Reading a member of a parsed value, as \<^verbatim>\<open>context.profileId\<close> does; \<^term>\<open>None\<close> is
  \<^verbatim>\<open>undefined\<close>.
\<close>

definition property :: "json \<Rightarrow> string \<Rightarrow> json option" where
  "property v k = (case v of JsonObj ms \<Rightarrow> map_of ms k | _ \<Rightarrow> None)"

text \<open>
  \<^verbatim>\<open>ensureContextDir\<close>, \<^verbatim>\<open>readContext\<close>, \<^verbatim>\<open>writeContext\<close> and \<^verbatim>\<open>clearContext\<close>.
  \<^verbatim>\<open>fs.existsSync\<close> does not throw; the other calls throw where \<open>fs_fault\<close> says so.
  \<open>readContext_try\<close> and \<open>writeContext_try\<close> are the bodies of the two \<^verbatim>\<open>try\<close> blocks,
  the functions themselves add the \<^verbatim>\<open>catch\<close>; a write that throws leaves the directory
  it has made. \<^verbatim>\<open>readContext\<close> returns what
  \<^verbatim>\<open>JSON.parse\<close> gives, cast without a check; \<^term>\<open>JsonNull\<close> is the \<^verbatim>\<open>null\<close> of an
  unset context.
\<close>

definition ensureContextDir :: "world \<Rightarrow> js_error + world" where
  "ensureContextDir w =
     (if \<not> context_dir w then
        (if fs_fault w Mkdir then Inl (SystemError ''EACCES: permission denied, mkdir'')
         else Inr (w\<lparr>context_dir := True\<rparr>))
      else Inr w)"

definition readContext_try :: "world \<Rightarrow> js_error + json" where
  "readContext_try w =
     (case context_file w of
        None \<Rightarrow> Inr JsonNull
      | Some text \<Rightarrow>
          if fs_fault w ReadFile then Inl (SystemError ''EACCES: permission denied, open'')
          else
            (case json_parse text of
               None \<Rightarrow> Inl (SyntaxError ''Unexpected token in JSON'')
             | Some v \<Rightarrow> Inr v))"

definition readContext :: "world \<Rightarrow> json \<times> world" where
  "readContext w =
     (case readContext_try w of
        Inl e \<Rightarrow> (JsonNull, logError ''Failed to read context file'' w)
      | Inr v \<Rightarrow> (v, w))"

definition writeContext_try :: "ProfileContext \<Rightarrow> world \<Rightarrow> (js_error + unit) \<times> world" where
  "writeContext_try context w =
     (case ensureContextDir w of
        Inl e \<Rightarrow> (Inl e, w)
      | Inr w1 \<Rightarrow>
          if fs_fault w1 WriteFile then
            (Inl (SystemError ''EACCES: permission denied, open''), w1)
          else
            (Inr (), logInfo (''Context updated: '' @ profileName context)
                       (w1\<lparr>context_file := Some (stringify_context context)\<rparr>)))"

definition writeContext :: "ProfileContext \<Rightarrow> world \<Rightarrow> world" where
  "writeContext context w =
     (case writeContext_try context w of
        (Inl e, w1) \<Rightarrow> logError ''Failed to write context file'' w1
      | (Inr u, w1) \<Rightarrow> w1)"

definition clearContext :: "world \<Rightarrow> world" where
  "clearContext w =
     (if context_file w \<noteq> None then
        (if fs_fault w Unlink then logError ''Failed to clear context file'' w
         else logInfo ''Context cleared'' (w\<lparr>context_file := None\<rparr>))
      else w)"

section \<open>The tool handlers\<close>

text \<open>
  A tool result \<^verbatim>\<open>{ content: [{ type: 'text', text }] }\<close>, with the value its \<^verbatim>\<open>text\<close>
  holds. It is a text content when that value is a string: \<open>TextContent t\<close>. The
  arguments of a call are a map from names to values; a name that is not given, like every
  name when the call has no \<^verbatim>\<open>arguments\<close>, reads as \<^verbatim>\<open>undefined\<close>.
\<close>

datatype tool_result = Content jsval

abbreviation TextContent :: "string \<Rightarrow> tool_result" where
  "TextContent t \<equiv> Content (JStr t)"

type_synonym arguments = "string \<Rightarrow> jsval"

type_synonym 'a outcome = "(js_error + 'a) \<times> world"

abbreviation nl :: string where
  "nl \<equiv> [CHR 0x0A]"

abbreviation dq :: string where
  "dq \<equiv> [CHR 0x22]"

definition reply :: "string \<Rightarrow> world \<Rightarrow> tool_result outcome" where
  "reply t w = (Inr (TextContent t), w)"

definition join :: "string \<Rightarrow> string list \<Rightarrow> string" where
  "join sep xs = (case xs of [] \<Rightarrow> [] | y # ys \<Rightarrow> y @ concat (map (\<lambda>z. sep @ z) ys))"

text \<open>
  The first member a handler reads of the response it awaited; reading it of \<^verbatim>\<open>null\<close>
  throws.
\<close>

definition on_response ::
  "string \<Rightarrow> ApiResponse option \<times> world \<Rightarrow> (ApiResponse \<Rightarrow> world \<Rightarrow> 'a outcome) \<Rightarrow> 'a outcome" where
  "on_response prop r k =
     (case r of
        (None, w) \<Rightarrow> (Inl (TypeError (null_read prop)), w)
      | (Some response, w) \<Rightarrow> k response w)"

text \<open>
  The texts \<^verbatim>\<open>set_current_profile\<close> returns. The check mark is spelt as the bytes the
  source file has for it.
\<close>

definition check_mark :: string where
  "check_mark = [CHR 0xC3, CHR 0xA2, CHR 0xC5, CHR 0x93, CHR 0xE2, CHR 0x80, CHR 0x9C]"

definition profile_label :: "McpProfile \<Rightarrow> string" where
  "profile_label profile = ''**'' @ name profile @ ''** (#'' @ number_to_string (number profile) @ '')''"

definition not_activated_text :: "McpProfile \<Rightarrow> string" where
  "not_activated_text profile =
     ''Error: Profile '' @ profile_label profile @ '' is not activated for MCP access.''
     @ nl @ nl @ ''Please activate it first using: activate_mcp_profile''"

definition importing_text :: "McpProfile \<Rightarrow> string" where
  "importing_text profile =
     ''Warning: Profile '' @ profile_label profile
     @ '' is activated but data is still importing (status: ''
     @ js_String (mcp_data_status profile) @ '').'' @ nl @ nl
     @ ''You can set it as current, but queries may return limited data until import completes.''"

definition context_set_text :: "McpProfile \<Rightarrow> string" where
  "context_set_text profile =
     check_mark @ '' Current working profile set to: '' @ profile_label profile @ '' - ''
     @ region profile @ nl @ nl
     @ ''All subsequent commands will use this profile automatically.''"

text \<open>\<^verbatim>\<open>case 'set_current_profile'\<close>.\<close>

definition set_current_profile :: "remote \<Rightarrow> arguments \<Rightarrow> world \<Rightarrow> tool_result outcome" where
  "set_current_profile rds args w =
     (let profileInput = args ''profile_id''
      in case resolveProfileId rds profileInput w of
           (Inl e, w1) \<Rightarrow> (Inl e, w1)
         | (Inr None, w1) \<Rightarrow>
             reply (''Error: Could not resolve profile '' @ dq @ js_String profileInput @ dq) w1
         | (Inr (Some resolved), w1) \<Rightarrow>
             on_response ''success'' (api_get rds ''/v1/mcp/profiles'' [] w1)
               (\<lambda>listResponse w2.
                  if \<not> success listResponse \<or> data listResponse = None then
                    reply ''Error: Failed to fetch profile list'' w2
                  else
                    (case mcp_profiles ''find'' (the (data listResponse)) of
                       Inl e \<Rightarrow> (Inl e, w2)
                     | Inr ps \<Rightarrow>
                         (case find (\<lambda>p. id' p = resolved_id resolved) ps of
                            None \<Rightarrow> reply ''Error: Profile not found in your account'' w2
                          | Some profile \<Rightarrow>
                              if \<not> mcp_activated profile then
                                reply (not_activated_text profile) w2
                              else if mcp_data_status profile \<noteq> JStr ''ready'' then
                                reply (importing_text profile) w2
                              else
                                (let context = \<lparr>profileId = id' profile,
                                                profileNumber = number profile,
                                                profileName = name profile,
                                                contextRegion = region profile,
                                                setAt = clock w2\<rparr>
                                 in reply (context_set_text profile)
                                      (writeContext context w2))))))"

text \<open>
  \<^verbatim>\<open>case 'activate_mcp_profile'\<close>. \<^verbatim>\<open>p.number === profileNumber\<close> holds for a number
  only. The body of the POST is \<^verbatim>\<open>{ profile_id: profile.id }\<close>.
\<close>

definition minutes_given :: "int option \<Rightarrow> bool" where
  "minutes_given m = (case m of None \<Rightarrow> False | Some k \<Rightarrow> k \<noteq> 0)"

definition activated_text :: "McpProfile \<Rightarrow> payload option \<Rightarrow> string" where
  "activated_text profile d =
     (let act = (case d of Some (McpActivateData a) \<Rightarrow> Some a | _ \<Rightarrow> None);
          st = (case act of None \<Rightarrow> ''pending'' | Some a \<Rightarrow> or_else (activate_status a) ''pending'');
          eta = (case act of None \<Rightarrow> None | Some a \<Rightarrow> activate_minutes a)
      in ''**Profile Activated for MCP Access**'' @ nl @ nl
         @ ''Profile: '' @ name profile @ '' ('' @ region profile @ '')'' @ nl
         @ ''Status: '' @ st @ nl
         @ (if minutes_given eta then
              ''Estimated time: ~'' @ number_to_string (the eta) @ '' minutes'' @ nl
            else [])
         @ nl @ ''Data import has started. Use `check_mcp_status` to monitor progress.'')"

definition find_by_number :: "jsval \<Rightarrow> McpProfile list \<Rightarrow> McpProfile option" where
  "find_by_number wanted ps = find (\<lambda>p. JNum (number p) = wanted) ps"

definition activate_mcp_profile :: "remote \<Rightarrow> arguments \<Rightarrow> world \<Rightarrow> tool_result outcome" where
  "activate_mcp_profile rds args w =
     (let wanted = args ''number''
      in on_response ''success'' (api_get rds ''/v1/mcp/profiles'' [] w)
           (\<lambda>listResponse w1.
              if \<not> success listResponse \<or> data listResponse = None then
                reply (''Error: '' @ or_else (error listResponse) ''Failed to fetch profiles'') w1
              else
                (case mcp_profiles ''find'' (the (data listResponse)) of
                   Inl e \<Rightarrow> (Inl e, w1)
                 | Inr ps \<Rightarrow>
                     (case find_by_number wanted ps of
                        None \<Rightarrow>
                          reply (''Error: Profile #'' @ js_String wanted
                                 @ '' not found. Use list_profiles to see available profiles.'') w1
                      | Some profile \<Rightarrow>
                          on_response ''success''
                            (api_post rds ''/v1/mcp/profiles/activate''
                               [(''profile_id'', JStr (id' profile))] w1)
                            (\<lambda>response w2.
                               if \<not> success response then
                                 reply (''Error: '' @ or_else (error response)
                                                       ''Failed to activate profile'') w2
                               else reply (activated_text profile (data response)) w2)))))"

text \<open>
  The other tools of \<^verbatim>\<open>index.ts\<close>. What they print of profiles, campaigns and keywords
  is built by the templates of \<open>render\<close>: one line or card an entity, the summary of
  \<^verbatim>\<open>get_performance\<close> with its floating-point totals, the rows of
  \<^verbatim>\<open>get_campaign_performance\<close>, and \<^verbatim>\<open>toUpperCase\<close>.
\<close>

record render =
  profile_line :: "entity \<Rightarrow> string"
  profile_card :: "payload \<Rightarrow> string"
  campaign_item :: "entity \<Rightarrow> string"
  campaign_card :: "payload \<Rightarrow> string"
  campaign_hit :: "entity \<Rightarrow> string"
  keyword_item :: "entity \<Rightarrow> string"
  performance_summary :: "jsval \<Rightarrow> jsval \<Rightarrow> int \<Rightarrow> entity list \<Rightarrow> string"
  performance_row :: "nat \<Rightarrow> entity \<Rightarrow> string"
  upper_case :: "string \<Rightarrow> string"

definition error_reply :: "ApiResponse \<Rightarrow> string \<Rightarrow> world \<Rightarrow> tool_result outcome" where
  "error_reply response fallback w = reply (''Error: '' @ or_else (error response) fallback) w"

definition profiles_member :: "string \<Rightarrow> payload \<Rightarrow> js_error + entity list" where
  "profiles_member prop d =
     (case d of ProfilesData ps \<Rightarrow> Inr ps | _ \<Rightarrow> Inl (TypeError (undefined_read prop)))"

definition campaigns_member :: "string \<Rightarrow> payload \<Rightarrow> js_error + entity list \<times> int" where
  "campaigns_member prop d =
     (case d of CampaignsData cs n \<Rightarrow> Inr (cs, n) | _ \<Rightarrow> Inl (TypeError (undefined_read prop)))"

definition keywords_member :: "string \<Rightarrow> payload \<Rightarrow> js_error + entity list" where
  "keywords_member prop d =
     (case d of KeywordsData ks \<Rightarrow> Inr ks | _ \<Rightarrow> Inl (TypeError (undefined_read prop)))"

text \<open>\<^verbatim>\<open>if (args?.k) params.k = ...\<close>: a parameter that is set when the argument is truthy.\<close>

definition given :: "arguments \<Rightarrow> string \<Rightarrow> (string \<times> jsval) list" where
  "given args k = (if truthy (args k) then [(k, args k)] else [])"

definition given_string :: "arguments \<Rightarrow> string \<Rightarrow> (string \<times> jsval) list" where
  "given_string args k = (if truthy (args k) then [(k, JStr (js_String (args k)))] else [])"

definition list_profiles :: "render \<Rightarrow> remote \<Rightarrow> world \<Rightarrow> tool_result outcome" where
  "list_profiles r rds w =
     on_response ''success'' (api_get rds ''/v1/amazon/profiles'' [] w)
       (\<lambda>response w1.
          if \<not> success response \<or> data response = None then
            error_reply response ''Failed to fetch profiles'' w1
          else
            (case profiles_member ''length'' (the (data response)) of
               Inl e \<Rightarrow> (Inl e, w1)
             | Inr profiles \<Rightarrow>
                 if length profiles = 0 then reply ''No Amazon advertising profiles found.'' w1
                 else
                   reply (''Found '' @ nat_to_string (length profiles) @ '' profile(s):'' @ nl @ nl
                          @ join nl (map (profile_line r) profiles) @ nl @ nl
                          @ ''To activate a profile, just say '' @ dq @ ''activate #2'' @ dq
                          @ '' or similar.'') w1))"

definition get_profile :: "render \<Rightarrow> remote \<Rightarrow> arguments \<Rightarrow> world \<Rightarrow> tool_result outcome" where
  "get_profile r rds args w =
     on_response ''success''
       (api_get rds (''/v1/amazon/profiles/'' @ js_String (args ''profile_id'')) [] w)
       (\<lambda>response w1.
          if \<not> success response \<or> data response = None then
            error_reply response ''Profile not found'' w1
          else reply (profile_card r (the (data response))) w1)"

definition list_campaigns :: "render \<Rightarrow> remote \<Rightarrow> arguments \<Rightarrow> world \<Rightarrow> tool_result outcome" where
  "list_campaigns r rds args w =
     (case resolveProfileId rds (args ''profile_id'') w of
        (Inl e, w1) \<Rightarrow> (Inl e, w1)
      | (Inr None, w1) \<Rightarrow>
          reply ''Error: Could not resolve profile. Use list_profiles to see available profiles.'' w1
      | (Inr (Some resolved), w1) \<Rightarrow>
          on_response ''success''
            (api_get rds ''/v1/amazon/campaigns''
               ([(''profile_id'', JStr (resolved_id resolved))] @ given args ''status''
                @ given args ''targeting_type'' @ given_string args ''limit'') w1)
            (\<lambda>response w2.
               if \<not> success response \<or> data response = None then
                 error_reply response ''Failed to fetch campaigns'' w2
               else
                 (case campaigns_member ''length'' (the (data response)) of
                    Inl e \<Rightarrow> (Inl e, w2)
                  | Inr (campaigns, n) \<Rightarrow>
                      if length campaigns = 0 then reply ''No campaigns found.'' w2
                      else
                        reply (''Found '' @ nat_to_string (length campaigns) @ '' campaign(s):''
                               @ nl @ nl @ join (nl @ nl) (map (campaign_item r) campaigns)) w2)))"

definition get_campaign :: "render \<Rightarrow> remote \<Rightarrow> arguments \<Rightarrow> world \<Rightarrow> tool_result outcome" where
  "get_campaign r rds args w =
     on_response ''success''
       (api_get rds (''/v1/amazon/campaigns/'' @ js_String (args ''campaign_id''))
          [(''profile_id'', args ''profile_id'')] w)
       (\<lambda>response w1.
          if \<not> success response \<or> data response = None then
            error_reply response ''Campaign not found'' w1
          else reply (campaign_card r (the (data response))) w1)"

text \<open>
  The four update tools differ in the path, the member they send, the fallback of the error
  and the text that stands in for a missing \<^verbatim>\<open>response.message\<close>. The \<^verbatim>\<open>text\<close> of
  their result is \<^verbatim>\<open>response.message || `...`\<close>: a truthy message is returned as it is,
  whatever its type.
\<close>

definition update_tool ::
  "remote \<Rightarrow> string \<Rightarrow> (string \<times> jsval) list \<Rightarrow> string \<Rightarrow> string \<Rightarrow> world \<Rightarrow> tool_result outcome" where
  "update_tool rds path body fallback confirmation w =
     on_response ''success'' (api_patch rds path body w)
       (\<lambda>response w1.
          if \<not> success response then error_reply response fallback w1
          else
            (Inr (Content (if truthy (message response) then message response
                           else JStr confirmation)), w1))"

definition update_campaign_status :: "remote \<Rightarrow> arguments \<Rightarrow> world \<Rightarrow> tool_result outcome" where
  "update_campaign_status rds args w =
     update_tool rds (''/v1/amazon/campaigns/'' @ js_String (args ''campaign_id'') @ ''/status'')
       [(''profile_id'', args ''profile_id''), (''status'', args ''status'')]
       ''Failed to update status''
       (''Campaign status updated to '' @ js_String (args ''status'')) w"

definition update_campaign_budget :: "remote \<Rightarrow> arguments \<Rightarrow> world \<Rightarrow> tool_result outcome" where
  "update_campaign_budget rds args w =
     update_tool rds (''/v1/amazon/campaigns/'' @ js_String (args ''campaign_id'') @ ''/budget'')
       [(''profile_id'', args ''profile_id''), (''budget'', args ''budget'')]
       ''Failed to update budget''
       (''Campaign budget updated to $'' @ js_String (args ''budget'') @ ''/day'') w"

definition update_keyword_bid :: "remote \<Rightarrow> arguments \<Rightarrow> world \<Rightarrow> tool_result outcome" where
  "update_keyword_bid rds args w =
     update_tool rds (''/v1/amazon/keywords/'' @ js_String (args ''keyword_id'') @ ''/bid'')
       [(''profile_id'', args ''profile_id''), (''bid'', args ''bid'')]
       ''Failed to update bid''
       (''Keyword bid updated to $'' @ js_String (args ''bid'')) w"

definition update_keyword_status :: "remote \<Rightarrow> arguments \<Rightarrow> world \<Rightarrow> tool_result outcome" where
  "update_keyword_status rds args w =
     update_tool rds (''/v1/amazon/keywords/'' @ js_String (args ''keyword_id'') @ ''/status'')
       [(''profile_id'', args ''profile_id''), (''status'', args ''status'')]
       ''Failed to update status''
       (''Keyword status updated to '' @ js_String (args ''status'')) w"

definition search_campaigns :: "render \<Rightarrow> remote \<Rightarrow> arguments \<Rightarrow> world \<Rightarrow> tool_result outcome" where
  "search_campaigns r rds args w =
     on_response ''success''
       (api_get rds ''/v1/amazon/campaigns/search''
          [(''profile_id'', args ''profile_id''), (''q'', args ''query'')] w)
       (\<lambda>response w1.
          if \<not> success response \<or> data response = None then
            error_reply response ''Search failed'' w1
          else
            (case campaigns_member ''length'' (the (data response)) of
               Inl e \<Rightarrow> (Inl e, w1)
             | Inr (campaigns, n) \<Rightarrow>
                 if length campaigns = 0 then
                   reply (''No campaigns found matching '' @ dq @ js_String (args ''query'') @ dq) w1
                 else
                   reply (''Found '' @ nat_to_string (length campaigns) @ '' campaign(s):''
                          @ nl @ nl @ join nl (map (campaign_hit r) campaigns)) w1))"

definition list_keywords :: "render \<Rightarrow> remote \<Rightarrow> arguments \<Rightarrow> world \<Rightarrow> tool_result outcome" where
  "list_keywords r rds args w =
     on_response ''success''
       (api_get rds ''/v1/amazon/keywords''
          ([(''profile_id'', args ''profile_id'')] @ given args ''campaign_id''
           @ given args ''status'' @ given args ''match_type'' @ given_string args ''limit'') w)
       (\<lambda>response w1.
          if \<not> success response \<or> data response = None then
            error_reply response ''Failed to fetch keywords'' w1
          else
            (case keywords_member ''length'' (the (data response)) of
               Inl e \<Rightarrow> (Inl e, w1)
             | Inr keywords \<Rightarrow>
                 if length keywords = 0 then reply ''No keywords found.'' w1
                 else
                   reply (''Found '' @ nat_to_string (length keywords) @ '' keyword(s):''
                          @ nl @ nl @ join (nl @ nl) (map (keyword_item r) keywords)) w1))"

text \<open>
  \<^verbatim>\<open>case 'get_performance'\<close> of \<^verbatim>\<open>index.ts\<close>. After the check of \<^verbatim>\<open>success\<close> and
  \<^verbatim>\<open>data\<close> it reads nothing else of the response.
\<close>

definition get_performance :: "render \<Rightarrow> remote \<Rightarrow> arguments \<Rightarrow> world \<Rightarrow> tool_result outcome" where
  "get_performance r rds args w =
     on_response ''success''
       (api_get rds ''/v1/amazon/reports/performance''
          [(''profile_id'', args ''profile_id''), (''start_date'', args ''start_date''),
           (''end_date'', args ''end_date'')] w)
       (\<lambda>response w1.
          if \<not> success response \<or> data response = None then
            error_reply response ''Failed to fetch performance'' w1
          else
            (case campaigns_member ''forEach'' (the (data response)) of
               Inl e \<Rightarrow> (Inl e, w1)
             | Inr (campaigns, n) \<Rightarrow>
                 reply (performance_summary r (args ''start_date'') (args ''end_date'') n
                          campaigns) w1))"

definition get_campaign_performance :: "render \<Rightarrow> remote \<Rightarrow> arguments \<Rightarrow> world \<Rightarrow> tool_result outcome" where
  "get_campaign_performance r rds args w =
     on_response ''success''
       (api_get rds ''/v1/amazon/reports/campaign-performance''
          ([(''profile_id'', args ''profile_id''), (''start_date'', args ''start_date''),
            (''end_date'', args ''end_date'')] @ given args ''sort_by'' @ given args ''order''
           @ given_string args ''limit'' @ given args ''status'') w)
       (\<lambda>response w1.
          if \<not> success response \<or> data response = None then
            error_reply response ''Failed to fetch campaign performance'' w1
          else
            (case campaigns_member ''length'' (the (data response)) of
               Inl e \<Rightarrow> (Inl e, w1)
             | Inr (campaigns, n) \<Rightarrow>
                 if length campaigns = 0 then
                   reply ''No campaigns found for the specified criteria.'' w1
                 else
                   (let sortBy = (if truthy (args ''sort_by'') then args ''sort_by''
                                  else JStr ''sales'');
                        order = (if truthy (args ''order'') then args ''order''
                                 else JStr ''desc'');
                        statusFilter = (if truthy (args ''status'') then
                                          '' ('' @ js_String (args ''status'') @ '' only)''
                                        else [])
                    in case sortBy of
                         JStr metric \<Rightarrow>
                           reply (''**Top Campaigns by '' @ upper_case r metric @ ''** (''
                                  @ js_String (args ''start_date'') @ '' to ''
                                  @ js_String (args ''end_date'') @ '')'' @ statusFilter @ nl @ nl
                                  @ concat (map (\<lambda>(i, c). performance_row r i c)
                                              (zip [0..<length campaigns] campaigns))
                                  @ nl @ ''**Total:** '' @ nat_to_string (length campaigns)
                                  @ '' campaign(s) | Sorted by: '' @ metric @ '' (''
                                  @ js_String order @ '')'') w1
                       | _ \<Rightarrow> (Inl (TypeError ''sortBy.toUpperCase is not a function''), w1))))"

text \<open>\<^verbatim>\<open>case 'list_mcp_profiles'\<close>, \<^verbatim>\<open>'check_mcp_status'\<close> and \<^verbatim>\<open>'deactivate_mcp_profile'\<close>.\<close>

definition profile_entry :: "McpProfile \<Rightarrow> string" where
  "profile_entry p =
     ''#'' @ number_to_string (number p) @ ''. '' @ name p @ '' ('' @ region p @ '')''"

definition importing_entry :: "McpProfile \<Rightarrow> string" where
  "importing_entry p =
     profile_entry p @ '' - '' @ js_String (mcp_data_status p)
     @ (if minutes_given (eta_minutes p) then
          '' - ~'' @ number_to_string (the (eta_minutes p)) @ '' min remaining''
        else [])
     @ nl"

definition group_text :: "string \<Rightarrow> (McpProfile \<Rightarrow> string) \<Rightarrow> McpProfile list \<Rightarrow> string" where
  "group_text title entry ps =
     (if length ps > 0 then
        ''**'' @ title @ '' ('' @ nat_to_string (length ps) @ ''):**'' @ nl
        @ concat (map entry ps) @ nl
      else [])"

definition list_mcp_profiles :: "remote \<Rightarrow> world \<Rightarrow> tool_result outcome" where
  "list_mcp_profiles rds w =
     on_response ''success'' (api_get rds ''/v1/mcp/profiles'' [] w)
       (\<lambda>response w1.
          if \<not> success response \<or> data response = None then
            error_reply response ''Failed to fetch profiles'' w1
          else
            (case mcp_profiles ''length'' (the (data response)) of
               Inl e \<Rightarrow> (Inl e, w1)
             | Inr profiles \<Rightarrow>
                 if length profiles = 0 then
                   reply ''No Amazon advertising profiles found for this account.'' w1
                 else
                   (let ready = filter is_ready profiles;
                        importing = filter (\<lambda>p. mcp_activated p \<and> \<not> is_ready p) profiles;
                        notActivated = filter (\<lambda>p. \<not> mcp_activated p) profiles
                    in reply (''Found '' @ nat_to_string (length profiles) @ '' profile(s):''
                              @ nl @ nl
                              @ group_text ''Ready for Queries'' (\<lambda>p. profile_entry p @ nl) ready
                              @ group_text ''Importing Data'' importing_entry importing
                              @ group_text ''Not Activated'' (\<lambda>p. profile_entry p @ nl)
                                  notActivated
                              @ ''To activate: say '' @ dq @ ''activate #2'' @ dq
                              @ '' or similar.'') w1)))"

text \<open>
  The status text. A payload that is not a status has none of the members read, so each
  prints as \<^verbatim>\<open>undefined\<close> and \<^verbatim>\<open>available\<close> is falsy.
\<close>

definition status_text :: "McpProfile \<Rightarrow> payload \<Rightarrow> string" where
  "status_text profile d =
     (let st = (case d of McpStatusData x \<Rightarrow> Some x | _ \<Rightarrow> None);
          is_available = (case st of None \<Rightarrow> False | Some x \<Rightarrow> available x);
          minutes = (case st of None \<Rightarrow> None | Some x \<Rightarrow> status_minutes x);
          progress = (case st of None \<Rightarrow> None | Some x \<Rightarrow> import_progress x)
      in ''**MCP Status: '' @ name profile @ '' ('' @ region profile @ '')**'' @ nl @ nl
         @ ''Available: '' @ (if is_available then ''Yes'' else ''No'') @ nl
         @ ''Status: '' @ (case st of None \<Rightarrow> ''undefined'' | Some x \<Rightarrow> reason x) @ nl
         @ ''Message: '' @ (case st of None \<Rightarrow> ''undefined'' | Some x \<Rightarrow> status_message x) @ nl
         @ (if minutes_given minutes then
              ''Estimated time remaining: ~'' @ number_to_string (the minutes) @ '' minutes'' @ nl
            else [])
         @ (case progress of
              None \<Rightarrow> []
            | Some ip \<Rightarrow>
                nl @ ''**Import Progress:**'' @ nl
                @ ''- Days imported: '' @ number_to_string (unique_dates ip) @ '' / ''
                @ number_to_string (expected_days ip) @ nl
                @ ''- Progress: '' @ number_to_string (progress_percent ip) @ ''%'' @ nl)
         @ (if is_available then
              nl @ ''This profile is ready! You can now query campaigns, keywords, and performance data.''
            else []))"

definition check_mcp_status :: "remote \<Rightarrow> arguments \<Rightarrow> world \<Rightarrow> tool_result outcome" where
  "check_mcp_status rds args w =
     (let wanted = args ''number''
      in on_response ''success'' (api_get rds ''/v1/mcp/profiles'' [] w)
           (\<lambda>listResponse w1.
              if \<not> success listResponse \<or> data listResponse = None then
                error_reply listResponse ''Failed to fetch profiles'' w1
              else
                (case mcp_profiles ''find'' (the (data listResponse)) of
                   Inl e \<Rightarrow> (Inl e, w1)
                 | Inr ps \<Rightarrow>
                     (case find_by_number wanted ps of
                        None \<Rightarrow>
                          reply (''Error: Profile #'' @ js_String wanted @ '' not found.'') w1
                      | Some profile \<Rightarrow>
                          on_response ''success''
                            (api_get rds (''/v1/mcp/profiles/'' @ id' profile @ ''/status'') [] w1)
                            (\<lambda>response w2.
                               if \<not> success response \<or> data response = None then
                                 error_reply response ''Failed to get status'' w2
                               else reply (status_text profile (the (data response))) w2)))))"

definition deactivate_mcp_profile :: "remote \<Rightarrow> arguments \<Rightarrow> world \<Rightarrow> tool_result outcome" where
  "deactivate_mcp_profile rds args w =
     (let wanted = args ''number''
      in on_response ''success'' (api_get rds ''/v1/mcp/profiles'' [] w)
           (\<lambda>listResponse w1.
              if \<not> success listResponse \<or> data listResponse = None then
                error_reply listResponse ''Failed to fetch profiles'' w1
              else
                (case mcp_profiles ''find'' (the (data listResponse)) of
                   Inl e \<Rightarrow> (Inl e, w1)
                 | Inr ps \<Rightarrow>
                     (case find_by_number wanted ps of
                        None \<Rightarrow>
                          reply (''Error: Profile #'' @ js_String wanted @ '' not found.'') w1
                      | Some profile \<Rightarrow>
                          on_response ''success''
                            (api_post rds ''/v1/mcp/profiles/deactivate''
                               [(''profile_id'', JStr (id' profile))] w1)
                            (\<lambda>response w2.
                               if \<not> success response then
                                 error_reply response ''Failed to deactivate profile'' w2
                               else
                                 reply (''**'' @ name profile @ '' ('' @ region profile
                                        @ '')** deactivated from MCP access.'') w2)))))"

section \<open>The dispatcher\<close>

text \<open>The names of the \<^verbatim>\<open>tools\<close> array, in its order.\<close>

definition tool_names :: "string list" where
  "tool_names =
     [''list_profiles'', ''get_profile'', ''list_campaigns'', ''get_campaign'',
      ''update_campaign_status'', ''update_campaign_budget'', ''search_campaigns'',
      ''list_keywords'', ''update_keyword_bid'', ''update_keyword_status'', ''get_performance'',
      ''get_campaign_performance'', ''list_mcp_profiles'', ''activate_mcp_profile'',
      ''check_mcp_status'', ''deactivate_mcp_profile'', ''set_current_profile'']"




text \<open>
  The handler of \<^verbatim>\<open>CallToolRequestSchema\<close>: \<open>call_tool_try\<close> is the \<^verbatim>\<open>switch\<close> inside
  its \<^verbatim>\<open>try\<close>, \<open>call_tool\<close> adds the \<^verbatim>\<open>catch\<close>, which turns what was thrown into a
  text.
\<close>

definition call_tool_try ::
  "render \<Rightarrow> remote \<Rightarrow> string \<Rightarrow> arguments \<Rightarrow> world \<Rightarrow> tool_result outcome" where
  "call_tool_try r rds tool args w =
     (if tool = ''list_profiles'' then list_profiles r rds w
      else if tool = ''get_profile'' then get_profile r rds args w
      else if tool = ''list_campaigns'' then list_campaigns r rds args w
      else if tool = ''get_campaign'' then get_campaign r rds args w
      else if tool = ''update_campaign_status'' then update_campaign_status rds args w
      else if tool = ''update_campaign_budget'' then update_campaign_budget rds args w
      else if tool = ''search_campaigns'' then search_campaigns r rds args w
      else if tool = ''list_keywords'' then list_keywords r rds args w
      else if tool = ''update_keyword_bid'' then update_keyword_bid rds args w
      else if tool = ''update_keyword_status'' then update_keyword_status rds args w
      else if tool = ''get_performance'' then get_performance r rds args w
      else if tool = ''get_campaign_performance'' then get_campaign_performance r rds args w
      else if tool = ''list_mcp_profiles'' then list_mcp_profiles rds w
      else if tool = ''activate_mcp_profile'' then activate_mcp_profile rds args w
      else if tool = ''check_mcp_status'' then check_mcp_status rds args w
      else if tool = ''deactivate_mcp_profile'' then deactivate_mcp_profile rds args w
      else if tool = ''set_current_profile'' then set_current_profile rds args w
      else reply (''Unknown tool: '' @ tool) w)"

definition call_tool ::
  "render \<Rightarrow> remote \<Rightarrow> string \<Rightarrow> arguments \<Rightarrow> world \<Rightarrow> tool_result \<times> world" where
  "call_tool r rds tool args w =
     (case call_tool_try r rds tool args w of
        (Inl e, w1) \<Rightarrow> (TextContent (''Error: '' @ error_message e), w1)
      | (Inr result, w1) \<Rightarrow> (result, w1))"

section \<open>The report tool of \<^verbatim>\<open>tools/reports.ts\<close>\<close>

text \<open>
  \<^verbatim>\<open>registerReportTools\<close> defines \<^verbatim>\<open>get_performance\<close> a second time. This one looks at
  \<^verbatim>\<open>data_not_ready\<close> before it looks at \<^verbatim>\<open>success\<close>.
\<close>

definition data_not_ready_text :: "ApiResponse \<Rightarrow> string" where
  "data_not_ready_text response =
     ''**Data Not Yet Available**'' @ nl @ nl
     @ js_String (message response) @ nl @ nl
     @ (if minutes_given (estimated_minutes response) then
          ''Estimated time: ~'' @ number_to_string (the (estimated_minutes response))
          @ '' minutes.''
        else ''Please try again later.'')"

definition report_get_performance ::
  "(jsval \<Rightarrow> jsval \<Rightarrow> entity list \<Rightarrow> string) \<Rightarrow> remote \<Rightarrow> arguments \<Rightarrow> world \<Rightarrow> tool_result outcome" where
  "report_get_performance summary rds args w =
     on_response ''data_not_ready''
       (api_get rds ''/v1/amazon/reports/performance''
          [(''profile_id'', args ''profile_id''), (''start_date'', args ''start_date''),
           (''end_date'', args ''end_date'')] w)
       (\<lambda>response w1.
          if data_not_ready response then reply (data_not_ready_text response) w1
          else if \<not> success response \<or> data response = None then
            error_reply response ''Failed to fetch performance data'' w1
          else
            (case campaigns_member ''length'' (the (data response)) of
               Inl e \<Rightarrow> (Inl e, w1)
             | Inr (campaigns, n) \<Rightarrow>
                 if length campaigns = 0 then
                   reply (''No performance data found for '' @ js_String (args ''start_date'')
                          @ '' to '' @ js_String (args ''end_date'')) w1
                 else reply (summary (args ''start_date'') (args ''end_date'') campaigns) w1))"

section \<open>A scenario\<close>

text \<open>
  Three profiles as \<^verbatim>\<open>GET /v1/mcp/profiles\<close> lists them: one never activated, one ready,
  one still importing; a Remote Data Service that answers every listing with them and
  accepts every activation; and a process that has not stored a context yet.
\<close>

definition profile_a1 :: McpProfile where
  "profile_a1 = \<lparr>number = 1, id' = ''a1'', name = ''Alpha'', region = ''US'',
                  mcp_activated = False, mcp_data_status = JNull, is_ready = False,
                  eta_minutes = None\<rparr>"

definition profile_b2 :: McpProfile where
  "profile_b2 = \<lparr>number = 2, id' = ''b2'', name = ''Beta'', region = ''UK'',
                  mcp_activated = True, mcp_data_status = JStr ''ready'', is_ready = True,
                  eta_minutes = None\<rparr>"

definition profile_c3 :: McpProfile where
  "profile_c3 = \<lparr>number = 3, id' = ''c3'', name = ''Gamma'', region = ''DE'',
                  mcp_activated = True, mcp_data_status = JStr ''importing'', is_ready = False,
                  eta_minutes = Some 12\<rparr>"

definition listing_response :: ApiResponse where
  "listing_response =
     \<lparr>success = True, data = Some (McpProfilesData [profile_a1, profile_b2, profile_c3]),
      error = None, message = JUndefined, data_not_ready = False, status = None,
      estimated_minutes = None\<rparr>"

definition activate_response :: ApiResponse where
  "activate_response =
     \<lparr>success = True,
      data = Some (McpActivateData \<lparr>activate_profile_id = ''a1'',
                                     activate_status = Some ''pending'',
                                     activate_minutes = Some 15\<rparr>),
      error = None, message = JUndefined, data_not_ready = False, status = None,
      estimated_minutes = None\<rparr>"

definition scenario_rds :: remote where
  "scenario_rds history rq =
     (if endpoint rq = ''/v1/mcp/profiles'' then Response 200 ''OK'' (Some listing_response)
      else if endpoint rq = ''/v1/mcp/profiles/activate'' then
        Response 200 ''OK'' (Some activate_response)
      else Response 404 ''Not Found'' (Some (failure ''Not found'')))"

definition fresh_world :: world where
  "fresh_world = \<lparr>context_dir = False, context_file = None, fs_fault = (\<lambda>op. False),
                   sent = [], stderr_log = [], clock = ''2026-01-06T09:00:00.000Z''\<rparr>"


definition listing_request :: request where
  "listing_request = \<lparr>http_method = GET, endpoint = ''/v1/mcp/profiles'', params = []\<rparr>"

definition beta_context :: ProfileContext where
  "beta_context = \<lparr>profileId = ''b2'', profileNumber = 2, profileName = ''Beta '' @ dq @ ''EU'' @ dq @ [CHR 0x5C] @ nl,
                     contextRegion = ''UK'', setAt = ''2026-01-06T09:00:00.000Z''\<rparr>"

text \<open>
  A Remote Data Service whose every answer is the \<^verbatim>\<open>data_not_ready\<close> shape, with an
  estimate and without one, and the arguments of a performance query.
\<close>

definition not_ready_response :: "int option \<Rightarrow> ApiResponse" where
  "not_ready_response minutes =
     \<lparr>success = False, data = None, error = None,
      message = JStr ''Profile data is still being imported'', data_not_ready = True,
      status = Some ''importing'', estimated_minutes = minutes\<rparr>"

definition importing_rds :: "int option \<Rightarrow> remote" where
  "importing_rds minutes history rq = Response 200 ''OK'' (Some (not_ready_response minutes))"

definition performance_arguments :: arguments where
  "performance_arguments =
     (\<lambda>k. if k = ''profile_id'' then JStr ''c3''
          else if k = ''start_date'' then JStr ''2026-01-01''
          else if k = ''end_date'' then JStr ''2026-01-05''
          else JUndefined)"

definition performance_request :: request where
  "performance_request =
     \<lparr>http_method = GET, endpoint = ''/v1/amazon/reports/performance'',
      params = [(''profile_id'', JStr ''c3''), (''start_date'', JStr ''2026-01-01''),
                (''end_date'', JStr ''2026-01-05'')]\<rparr>"

definition plain_render :: render where
  "plain_render =
     \<lparr>profile_line = (\<lambda>e. []), profile_card = (\<lambda>d. []), campaign_item = (\<lambda>e. []),
      campaign_card = (\<lambda>d. []), campaign_hit = (\<lambda>e. []), keyword_item = (\<lambda>e. []),
      performance_summary = (\<lambda>s e n cs. []), performance_row = (\<lambda>i e. []),
      upper_case = (\<lambda>s. s)\<rparr>"








definition single_argument :: "string \<Rightarrow> jsval \<Rightarrow> arguments" where
  "single_argument k v = (\<lambda>x. if x = k then v else JUndefined)"

section \<open>Decimal numerals and \<open>parseInt\<close>\<close>

lemma below_ten: "(d::nat) < 10 \<Longrightarrow> d \<in> {0, 1, 2, 3, 4, 5, 6, 7, 8, 9}"
  by auto

lemma digit_value_char: "d < 10 \<Longrightarrow> digit_value (digit_char d) = d"
  by (drule below_ten) (auto simp: digit_char_def digit_value_def position_def)

lemma is_digit_char: "is_digit (digit_char d)"
proof -
  have "d mod 10 < 10" by simp
  then have "d mod 10 \<in> {0, 1, 2, 3, 4, 5, 6, 7, 8, 9}" by (rule below_ten)
  then show ?thesis by (auto simp: digit_char_def is_digit_def)
qed

lemma nat_to_string_digits: "c \<in> set (nat_to_string n) \<Longrightarrow> is_digit c"
proof (induction n arbitrary: c rule: nat_to_string.induct)
  case (1 n)
  then show ?case
    by (subst (asm) (2) nat_to_string.simps) (auto simp: is_digit_char split: if_splits)
qed

lemma nat_to_string_nonempty: "nat_to_string n \<noteq> []"
  by (subst nat_to_string.simps) simp

lemma digits_value_snoc: "digits_value (ds @ [c]) = 10 * digits_value ds + digit_value c"
  by (simp add: digits_value_def)

lemma digits_value_nat_to_string: "digits_value (nat_to_string n) = n"
proof (induction n rule: nat_to_string.induct)
  case (1 n)
  show ?case
  proof (cases "n < 10")
    case True
    then show ?thesis by (subst nat_to_string.simps) (simp add: digits_value_def digit_value_char)
  next
    case False
    with 1 have "digits_value (nat_to_string (n div 10)) = n div 10" by simp
    with False show ?thesis
      by (subst nat_to_string.simps) (simp add: digits_value_snoc digit_value_char)
  qed
qed

lemma digit_plain:
  "is_digit c \<Longrightarrow> \<not> is_space c \<and> c \<noteq> CHR ''-'' \<and> c \<noteq> CHR ''+'' \<and> c \<noteq> CHR ''#''"
  by (auto simp: is_digit_def is_space_def)

lemma takeWhile_all: "(\<And>c. c \<in> set xs \<Longrightarrow> P c) \<Longrightarrow> takeWhile P xs = xs"
  by (induction xs) auto

lemma parseInt_digits:
  assumes "ds \<noteq> []" and "\<And>c. c \<in> set ds \<Longrightarrow> is_digit c"
  shows "parseInt ds = Some (int (digits_value ds))"
    and "parseInt (CHR ''-'' # ds) = Some (- int (digits_value ds))"
proof -
  obtain d r where ds: "ds = d # r" using assms(1) by (cases ds) auto
  have d: "is_digit d" using assms(2) ds by simp
  have tw: "takeWhile is_digit ds = ds" using assms(2) by (rule takeWhile_all)
  have skip: "dropWhile is_space ds = ds" using digit_plain [OF d] by (simp add: ds)
  have sign: "hd ds \<noteq> CHR ''-''" "hd ds \<noteq> CHR ''+''"
    using digit_plain [OF d] by (simp_all add: ds)
  show "parseInt ds = Some (int (digits_value ds))"
    unfolding parseInt_def Let_def skip using sign assms(1) by (simp add: tw)
  have minus: "dropWhile is_space (CHR ''-'' # ds) = CHR ''-'' # ds"
    by (simp add: is_space_def)
  show "parseInt (CHR ''-'' # ds) = Some (- int (digits_value ds))"
    unfolding parseInt_def Let_def minus using assms(1) by (simp add: tw)
qed

lemma replace_hash_none: "CHR ''#'' \<notin> set s \<Longrightarrow> replace_hash s = s"
  by (induction s) auto

lemma number_to_string_no_hash: "CHR ''#'' \<notin> set (number_to_string n)"
  using digit_plain nat_to_string_digits by (auto simp: number_to_string_def)

lemma parseInt_number_to_string: "parseInt (number_to_string n) = Some n"
  using parseInt_digits [OF nat_to_string_nonempty nat_to_string_digits]
  by (simp add: number_to_string_def digits_value_nat_to_string)

lemma reference_number_forms:
  "reference_number (JNum n) = Some n"
  "reference_number (JStr (number_to_string n)) = Some n"
  "reference_number (JStr (CHR ''#'' # number_to_string n)) = Some n"
  by (simp_all add: reference_number_def replace_hash_none number_to_string_no_hash
        parseInt_number_to_string)

section \<open>The resolver\<close>

lemma find_distinct_key:
  "distinct (map f xs) \<Longrightarrow> x \<in> set xs \<Longrightarrow> find (\<lambda>p. f p = f x) xs = Some x"
  by (induction xs) (auto simp: rev_image_eqI)


lemma resolve_by_number:
  assumes "reference_number input = Some n"
    and "api_get rds ''/v1/mcp/profiles'' [] w = (Some response, w1)"
    and "success response" and "data response = Some (McpProfilesData ps)"
  shows "resolveProfileId rds input w =
           (case find (\<lambda>p. number p = n) ps of
              Some profile \<Rightarrow>
                (Inr (Some \<lparr>resolved_id = id' profile, resolved_name = name profile,
                            resolved_region = region profile\<rparr>), w1)
            | None \<Rightarrow>
                (Inr (Some \<lparr>resolved_id = js_String input, resolved_name = [],
                            resolved_region = []\<rparr>), w1))"
  using assms by (simp add: resolveProfileId_def mcp_profiles_def split: option.splits)

text \<open>
  C5. When the listing is fetched and its ordinals are distinct, the number \<open>n\<close> of a listed
  profile, the string of its digits and that string after a \<^verbatim>\<open>#\<close> all resolve alike, to
  the identifier, name and region of the profile the listing gives the ordinal \<open>n\<close>.
\<close>

theorem resolve_ordinal_forms:
  assumes "api_get rds ''/v1/mcp/profiles'' [] w = (Some response, w1)"
    and "success response" and "data response = Some (McpProfilesData ps)"
    and "profile \<in> set ps" and "number profile = n" and "distinct (map number ps)"
  shows "resolveProfileId rds (JNum n) w =
           (Inr (Some \<lparr>resolved_id = id' profile, resolved_name = name profile,
                       resolved_region = region profile\<rparr>), w1)
       \<and> resolveProfileId rds (JStr (number_to_string n)) w = resolveProfileId rds (JNum n) w
       \<and> resolveProfileId rds (JStr (CHR ''#'' # number_to_string n)) w
           = resolveProfileId rds (JNum n) w"
proof -
  have found: "find (\<lambda>p. number p = n) ps = Some profile"
    using find_distinct_key [OF assms(6) assms(4)] assms(5) by simp
  show ?thesis
    using found
    by (simp add: resolve_by_number [OF reference_number_forms(1) assms(1-3)]
          resolve_by_number [OF reference_number_forms(2) assms(1-3)]
          resolve_by_number [OF reference_number_forms(3) assms(1-3)])
qed

lemma scenario_listing:
  "api_get scenario_rds ''/v1/mcp/profiles'' [] w
     = (Some listing_response, w\<lparr>sent := sent w @ [listing_request]\<rparr>)"
  by (simp add: api_get_def api_request_def scenario_rds_def listing_request_def)

text \<open>The scenario's second profile, resolved from \<^verbatim>\<open>2\<close>, \<^verbatim>\<open>"2"\<close> and \<^verbatim>\<open>"#2"\<close>.\<close>

theorem resolve_ordinal_forms_witness:
  "resolveProfileId scenario_rds (JNum 2) fresh_world =
     (Inr (Some \<lparr>resolved_id = ''b2'', resolved_name = ''Beta'', resolved_region = ''UK''\<rparr>),
      fresh_world\<lparr>sent := [listing_request]\<rparr>)
   \<and> resolveProfileId scenario_rds (JStr ''2'') fresh_world
       = resolveProfileId scenario_rds (JNum 2) fresh_world
   \<and> resolveProfileId scenario_rds (JStr ''#2'') fresh_world
       = resolveProfileId scenario_rds (JNum 2) fresh_world"
proof -
  have fetched: "api_get scenario_rds ''/v1/mcp/profiles'' [] fresh_world
                   = (Some listing_response, fresh_world\<lparr>sent := [listing_request]\<rparr>)"
    by (simp add: scenario_listing fresh_world_def)
  have ok: "success listing_response"
    and listed: "data listing_response
                   = Some (McpProfilesData [profile_a1, profile_b2, profile_c3])"
    by (simp_all add: listing_response_def)
  have member: "profile_b2 \<in> set [profile_a1, profile_b2, profile_c3]" by simp
  have ordinal: "number profile_b2 = 2" by (simp add: profile_b2_def)
  have unique: "distinct (map number [profile_a1, profile_b2, profile_c3])"
    by (simp add: profile_a1_def profile_b2_def profile_c3_def)
  have two: "number_to_string 2 = ''2''"
    by (simp add: number_to_string_def nat_to_string.simps digit_char_def)
  show ?thesis
    using resolve_ordinal_forms [OF fetched ok listed member ordinal unique]
    by (simp add: two profile_b2_def)
qed

lemma api_request_frame:
  assumes "api_request rds rq w = (r, w')"
  shows "context_file w' = context_file w" and "context_dir w' = context_dir w"
    and "fs_fault w' = fs_fault w" and "clock w' = clock w" and "sent w' = sent w @ [rq]"
  using assms
  by (auto simp: api_request_def logError_def Let_def
           split: http_result.splits option.splits if_splits)

lemma api_get_frame:
  assumes "api_get rds ep ps w = (r, w')"
  shows "context_file w' = context_file w" and "context_dir w' = context_dir w"
    and "fs_fault w' = fs_fault w" and "clock w' = clock w"
  using assms api_request_frame unfolding api_get_def by blast+

lemma resolveProfileId_frame:
  assumes "resolveProfileId rds input w = (r, w')"
  shows "context_file w' = context_file w" and "context_dir w' = context_dir w"
proof -
  show "context_file w' = context_file w"
    using assms
      by (auto simp: resolveProfileId_def Let_def
        split: option.splits prod.splits sum.splits if_splits dest: api_get_frame(1))
  show "context_dir w' = context_dir w"
    using assms
    by (auto simp: resolveProfileId_def Let_def
        split: option.splits prod.splits sum.splits if_splits dest: api_get_frame(2))
qed





section \<open>Selecting the current profile\<close>

lemma set_current_profile_found:
  assumes "resolveProfileId rds (args ''profile_id'') w = (Inr (Some r), w1)"
    and "api_get rds ''/v1/mcp/profiles'' [] w1 = (Some listResponse, w2)"
    and "success listResponse" and "data listResponse = Some (McpProfilesData ps)"
    and "find (\<lambda>p. id' p = resolved_id r) ps = Some profile"
  shows "set_current_profile rds args w =
           (if \<not> mcp_activated profile then reply (not_activated_text profile) w2
            else if mcp_data_status profile \<noteq> JStr ''ready'' then
              reply (importing_text profile) w2
            else reply (context_set_text profile)
                   (writeContext \<lparr>profileId = id' profile, profileNumber = number profile,
                                   profileName = name profile, contextRegion = region profile,
                                   setAt = clock w2\<rparr> w2))"
  using assms by (simp add: set_current_profile_def on_response_def mcp_profiles_def Let_def)

text \<open>
  C4. When the profile that \<^verbatim>\<open>set_current_profile\<close> looks up is not activated, the result
  is the text that starts with \<^verbatim>\<open>Error: \<close> and the context file and its directory are
  as they were before the call.
\<close>

theorem set_current_profile_not_activated:
  assumes "resolveProfileId rds (args ''profile_id'') w = (Inr (Some r), w1)"
    and "api_get rds ''/v1/mcp/profiles'' [] w1 = (Some listResponse, w2)"
    and "success listResponse" and "data listResponse = Some (McpProfilesData ps)"
    and "find (\<lambda>p. id' p = resolved_id r) ps = Some profile"
    and "\<not> mcp_activated profile"
  shows "set_current_profile rds args w = (Inr (TextContent (not_activated_text profile)), w2)
       \<and> take 7 (not_activated_text profile) = ''Error: ''
       \<and> context_file w2 = context_file w \<and> context_dir w2 = context_dir w"
proof -
  have "context_file w1 = context_file w" "context_dir w1 = context_dir w"
    using resolveProfileId_frame [OF assms(1)] by simp_all
  moreover have "context_file w2 = context_file w1" "context_dir w2 = context_dir w1"
    using api_get_frame [OF assms(2)] by simp_all
  ultimately show ?thesis
    using assms(6)
    by (simp add: set_current_profile_found [where args = args, OF assms(1-5)] reply_def not_activated_text_def)
qed

lemma scenario_resolves_one:
  "resolveProfileId scenario_rds (JStr ''1'') fresh_world =
     (Inr (Some \<lparr>resolved_id = ''a1'', resolved_name = ''Alpha'', resolved_region = ''US''\<rparr>),
      fresh_world\<lparr>sent := [listing_request]\<rparr>)"
  by (simp add: resolveProfileId_def reference_number_def parseInt_def is_space_def is_digit_def
        digits_value_def digit_value_def position_def scenario_listing mcp_profiles_def listing_response_def
        profile_a1_def fresh_world_def)

text \<open>The scenario's first profile, which was never activated.\<close>

theorem set_current_profile_not_activated_witness:
  "set_current_profile scenario_rds (single_argument ''profile_id'' (JStr ''1'')) fresh_world
     = (Inr (TextContent (not_activated_text profile_a1)),
        fresh_world\<lparr>sent := [listing_request, listing_request]\<rparr>)
   \<and> take 7 (not_activated_text profile_a1) = ''Error: ''
   \<and> context_file (fresh_world\<lparr>sent := [listing_request, listing_request]\<rparr>)
       = context_file fresh_world
   \<and> context_dir (fresh_world\<lparr>sent := [listing_request, listing_request]\<rparr>)
       = context_dir fresh_world"
proof -
  let ?args = "single_argument ''profile_id'' (JStr ''1'')"
  let ?r = "\<lparr>resolved_id = ''a1'', resolved_name = ''Alpha'', resolved_region = ''US''\<rparr>"
  have resolved: "resolveProfileId scenario_rds (?args ''profile_id'') fresh_world
                    = (Inr (Some ?r), fresh_world\<lparr>sent := [listing_request]\<rparr>)"
    by (simp add: single_argument_def scenario_resolves_one)
  have fetched: "api_get scenario_rds ''/v1/mcp/profiles'' []
                   (fresh_world\<lparr>sent := [listing_request]\<rparr>)
                   = (Some listing_response,
                      fresh_world\<lparr>sent := [listing_request, listing_request]\<rparr>)"
    by (simp add: scenario_listing)
  have ok: "success listing_response"
    and listed: "data listing_response
                   = Some (McpProfilesData [profile_a1, profile_b2, profile_c3])"
    by (simp_all add: listing_response_def)
  have found: "find (\<lambda>p. id' p = resolved_id ?r) [profile_a1, profile_b2, profile_c3]
                 = Some profile_a1"
    by (simp add: profile_a1_def)
  have inactive: "\<not> mcp_activated profile_a1" by (simp add: profile_a1_def)
  show ?thesis
    using set_current_profile_not_activated
            [where args = ?args, OF resolved fetched ok listed found inactive]
    by simp
qed

text \<open>
  C1 fails on the code. When the profile that \<^verbatim>\<open>set_current_profile\<close> looks up is
  activated and its data status is not \<^verbatim>\<open>ready\<close>, the handler returns the text that
  starts with \<^verbatim>\<open>Warning: \<close> from inside the status check, before \<^verbatim>\<open>writeContext\<close>:
  the context file is what it was before the call.
\<close>

theorem set_current_profile_importing_no_write:
  assumes "resolveProfileId rds (args ''profile_id'') w = (Inr (Some r), w1)"
    and "api_get rds ''/v1/mcp/profiles'' [] w1 = (Some listResponse, w2)"
    and "success listResponse" and "data listResponse = Some (McpProfilesData ps)"
    and "find (\<lambda>p. id' p = resolved_id r) ps = Some profile"
    and "mcp_activated profile" and "mcp_data_status profile \<noteq> JStr ''ready''"
  shows "set_current_profile rds args w = (Inr (TextContent (importing_text profile)), w2)
       \<and> take 9 (importing_text profile) = ''Warning: ''
       \<and> context_file w2 = context_file w"
proof -
  have "set_current_profile rds args w = (Inr (TextContent (importing_text profile)), w2)"
    using assms(6,7)
    by (simp add: set_current_profile_found [where args = args, OF assms(1-5)] reply_def)
  moreover have "context_file w2 = context_file w"
    using resolveProfileId_frame(1) [OF assms(1)] api_get_frame(1) [OF assms(2)] by simp
  ultimately show ?thesis by (simp add: importing_text_def)
qed

lemma scenario_resolves_three:
  "resolveProfileId scenario_rds (JStr ''3'') fresh_world =
     (Inr (Some \<lparr>resolved_id = ''c3'', resolved_name = ''Gamma'', resolved_region = ''DE''\<rparr>),
      fresh_world\<lparr>sent := [listing_request]\<rparr>)"
  by (simp add: resolveProfileId_def reference_number_def parseInt_def is_space_def is_digit_def
        digits_value_def digit_value_def position_def scenario_listing mcp_profiles_def
        listing_response_def profile_a1_def profile_b2_def profile_c3_def fresh_world_def)

text \<open>
  The scenario's third profile is activated and still importing; after the call no context
  file exists.
\<close>

theorem set_current_profile_importing_no_write_witness:
  "set_current_profile scenario_rds (single_argument ''profile_id'' (JStr ''3'')) fresh_world
       = (Inr (TextContent (importing_text profile_c3)),
          fresh_world\<lparr>sent := [listing_request, listing_request]\<rparr>)
   \<and> take 9 (importing_text profile_c3) = ''Warning: ''
   \<and> context_file (fresh_world\<lparr>sent := [listing_request, listing_request]\<rparr>) = None"
proof -
  let ?args = "single_argument ''profile_id'' (JStr ''3'')"
  let ?r = "\<lparr>resolved_id = ''c3'', resolved_name = ''Gamma'', resolved_region = ''DE''\<rparr>"
  have resolved: "resolveProfileId scenario_rds (?args ''profile_id'') fresh_world
                    = (Inr (Some ?r), fresh_world\<lparr>sent := [listing_request]\<rparr>)"
    by (simp add: single_argument_def scenario_resolves_three)
  have fetched: "api_get scenario_rds ''/v1/mcp/profiles'' []
                   (fresh_world\<lparr>sent := [listing_request]\<rparr>)
                   = (Some listing_response,
                      fresh_world\<lparr>sent := [listing_request, listing_request]\<rparr>)"
    by (simp add: scenario_listing)
  have ok: "success listing_response"
    and listed: "data listing_response
                   = Some (McpProfilesData [profile_a1, profile_b2, profile_c3])"
    by (simp_all add: listing_response_def)
  have found: "find (\<lambda>p. id' p = resolved_id ?r) [profile_a1, profile_b2, profile_c3]
                 = Some profile_c3"
    by (simp add: profile_a1_def profile_b2_def profile_c3_def)
  have active: "mcp_activated profile_c3"
    and importing: "mcp_data_status profile_c3 \<noteq> JStr ''ready''"
    by (simp_all add: profile_c3_def)
  show ?thesis
    using set_current_profile_importing_no_write
            [where args = ?args, OF resolved fetched ok listed found active importing]
    by (simp add: fresh_world_def)
qed

section \<open>Activation\<close>









section \<open>The JSON text of a context\<close>

lemma below_sixteen:
  "(d::nat) < 16 \<Longrightarrow> d \<in> {0, 1, 2, 3, 4, 5, 6, 7, 8, 9, 10, 11, 12, 13, 14, 15}"
  by simp arith

lemma hex_value_char: "d < 16 \<Longrightarrow> hex_value (hex_char d) = Some d"
  by (drule below_sixteen) (auto simp: hex_char_def hex_value_def position_def)

lemma hex4_control:
  assumes "n < 32"
  shows "hex4 (CHR ''0'') (CHR ''0'') (hex_char (n div 16)) (hex_char (n mod 16)) = Some n"
proof -
  have "n div 16 < 16" using assms by simp
  then have "hex_value (hex_char (n div 16)) = Some (n div 16)" by (rule hex_value_char)
  moreover have "hex_value (hex_char (n mod 16)) = Some (n mod 16)"
    by (rule hex_value_char) simp
  moreover have "hex_value (CHR ''0'') = Some 0"
    by (simp add: hex_value_def position_def)
  ultimately show ?thesis by (simp add: hex4_def)
qed

lemma utf8_encode_control: "(of_char c :: nat) < 32 \<Longrightarrow> utf8_encode (of_char c) = [c]"
  by (simp add: utf8_encode_def)

lemma string_body_escape_char:
  "string_body (json_escape_char c @ rest) =
     (case string_body rest of None \<Rightarrow> None | Some (s, r) \<Rightarrow> Some (c # s, r))"
proof -
  consider (quote) "c = CHR 0x22" | (backslash) "c = CHR 0x5C" | (b) "c = CHR 0x08"
    | (f) "c = CHR 0x0C" | (n) "c = CHR 0x0A" | (r) "c = CHR 0x0D" | (t) "c = CHR 0x09"
    | (control) "c \<noteq> CHR 0x22" "c \<noteq> CHR 0x5C" "c \<noteq> CHR 0x08" "c \<noteq> CHR 0x0C"
        "c \<noteq> CHR 0x0A" "c \<noteq> CHR 0x0D" "c \<noteq> CHR 0x09" "(of_char c :: nat) < 32"
    | (plain) "c \<noteq> CHR 0x22" "c \<noteq> CHR 0x5C" "\<not> (of_char c :: nat) < 32"
    by fastforce
  then show ?thesis
  proof cases
    case control
    then show ?thesis
      by (simp add: json_escape_char_def hex4_control utf8_encode_control
            split: option.splits)
  next
    case plain
    then have "c \<noteq> CHR 0x08" "c \<noteq> CHR 0x0C" "c \<noteq> CHR 0x0A" "c \<noteq> CHR 0x0D" "c \<noteq> CHR 0x09"
      by auto
    with plain show ?thesis
      by (simp add: json_escape_char_def split: option.splits)
  qed (simp_all add: json_escape_char_def unescape_def split: option.splits)
qed

lemma string_body_escape:
  "string_body (json_escape s @ CHR 0x22 # rest) = Some (s, rest)"
proof (induction s)
  case Nil
  then show ?case by (simp add: json_escape_def)
next
  case (Cons c s)
  have "json_escape (c # s) @ CHR 0x22 # rest
          = json_escape_char c @ json_escape s @ CHR 0x22 # rest"
    by (simp add: json_escape_def)
  then show ?case
    using Cons.IH by (simp only: string_body_escape_char) simp
qed

lemma digit_char_nonzero: "0 < d \<Longrightarrow> d < 10 \<Longrightarrow> digit_char d \<noteq> CHR ''0''"
  by (drule below_ten) (auto simp: digit_char_def)

lemma hd_nat_to_string: "0 < n \<Longrightarrow> hd (nat_to_string n) \<noteq> CHR ''0''"
proof (induction n rule: nat_to_string.induct)
  case (1 n)
  show ?case
  proof (cases "n < 10")
    case True
    with 1(2) show ?thesis
      by (subst nat_to_string.simps) (simp add: digit_char_nonzero)
  next
    case False
    then have "0 < n div 10" by simp
    with 1(1) False have "hd (nat_to_string (n div 10)) \<noteq> CHR ''0''" by simp
    with False show ?thesis
      by (subst nat_to_string.simps) (simp add: nat_to_string_nonempty)
  qed
qed

lemma takeWhile_digits_comma:
  "takeWhile is_digit (nat_to_string n @ CHR '','' # rest) = nat_to_string n"
  "dropWhile is_digit (nat_to_string n @ CHR '','' # rest) = CHR '','' # rest"
proof -
  have comma: "\<not> is_digit (CHR '','')" by (simp add: is_digit_def)
  show "takeWhile is_digit (nat_to_string n @ CHR '','' # rest) = nat_to_string n"
    using comma nat_to_string_digits by simp
  show "dropWhile is_digit (nat_to_string n @ CHR '','' # rest) = CHR '','' # rest"
    using comma nat_to_string_digits by simp
qed

lemma int_part_nat:
  "int_part (nat_to_string n @ CHR '','' # rest) = Some (nat_to_string n, CHR '','' # rest)"
proof (cases "n = 0")
  case True
  have "nat_to_string 0 = ''0''" by (subst nat_to_string.simps) (simp add: digit_char_def)
  with True show ?thesis by (simp add: int_part_def)
next
  case False
  obtain d ds where split: "nat_to_string n = d # ds"
    using nat_to_string_nonempty [of n] by (cases "nat_to_string n") auto
  have "d \<noteq> CHR ''0''" using hd_nat_to_string [of n] False split by simp
  moreover have "is_digit d" using nat_to_string_digits [of d n] split by simp
  ultimately have "int_part (nat_to_string n @ CHR '','' # rest)
         = Some (takeWhile is_digit (nat_to_string n @ CHR '','' # rest),
                 dropWhile is_digit (nat_to_string n @ CHR '','' # rest))"
    by (simp add: int_part_def split)
  then show ?thesis by (simp only: takeWhile_digits_comma)
qed

lemma parse_number_text:
  "parse_number (number_to_string n @ CHR '','' # rest) = Some (JsonNum n, CHR '','' # rest)"
proof (cases "n < 0")
  case True
  have "parse_number (CHR ''-'' # nat_to_string (nat (- n)) @ CHR '','' # rest)
          = Some (JsonNum (- int (nat (- n))), CHR '','' # rest)"
    by (simp add: parse_number_def int_part_nat frac_part_def exp_part_def
          digits_value_nat_to_string)
  with True show ?thesis by (simp add: number_to_string_def)
next
  case False
  obtain d ds where split: "nat_to_string (nat n) = d # ds"
    using nat_to_string_nonempty [of "nat n"] by (cases "nat_to_string (nat n)") auto
  have "is_digit d" using nat_to_string_digits [of d "nat n"] split by simp
  then have plus: "d \<noteq> CHR ''-''" using digit_plain by blast
  have "hd (nat_to_string (nat n) @ CHR '','' # rest) \<noteq> CHR ''-''"
    using plus by (simp add: split)
  then have "parse_number (nat_to_string (nat n) @ CHR '','' # rest)
          = Some (JsonNum (int (nat n)), CHR '','' # rest)"
    by (simp add: parse_number_def int_part_nat frac_part_def exp_part_def
          digits_value_nat_to_string)
  with False show ?thesis by (simp add: number_to_string_def)
qed

lemma number_to_string_head:
  obtains d ds where "number_to_string n = d # ds" and "d = CHR ''-'' \<or> is_digit d"
proof (cases "n < 0")
  case True
  then show ?thesis using that by (simp add: number_to_string_def)
next
  case False
  obtain d ds where split: "nat_to_string (nat n) = d # ds"
    using nat_to_string_nonempty [of "nat n"] by (cases "nat_to_string (nat n)") auto
  have "is_digit d" using nat_to_string_digits [of d "nat n"] split by simp
  with False split show ?thesis using that by (simp add: number_to_string_def)
qed

lemma parse_value_number:
  "parse_value (Suc f) (CHR '' '' # number_to_string n @ CHR '','' # rest)
     = Some (JsonNum n, CHR '','' # rest)"
proof -
  obtain d ds where split: "number_to_string n = d # ds" and kind: "d = CHR ''-'' \<or> is_digit d"
    by (rule number_to_string_head)
  have plain: "\<not> is_json_ws d" "d \<noteq> CHR ''{''" "d \<noteq> CHR ''[''" "d \<noteq> CHR 0x22"
    using kind by (auto simp: is_json_ws_def is_digit_def)
  have "skip_ws (CHR '' '' # number_to_string n @ CHR '','' # rest)
          = d # ds @ CHR '','' # rest"
    using plain(1) by (simp add: skip_ws_def is_json_ws_def split)
  moreover have "parse_number (d # ds @ CHR '','' # rest) = Some (JsonNum n, CHR '','' # rest)"
    using parse_number_text [of n rest] by (simp add: split)
  ultimately show ?thesis
    using plain kind by simp
qed

lemma parse_value_string:
  "parse_value (Suc f) (CHR '' '' # CHR 0x22 # json_escape s @ CHR 0x22 # rest)
     = Some (JsonStr s, rest)"
  by (simp add: skip_ws_def is_json_ws_def string_body_escape)

declare parse_value.simps [simp del] parse_members.simps [simp del]
  parse_elements.simps [simp del]

lemma members_string_more:
  "parse_members (Suc (Suc f)) ms
     (CHR 0x22 # json_escape k @ CHR 0x22 # CHR '':'' # CHR '' '' # CHR 0x22 # json_escape s
      @ CHR 0x22 # CHR '','' # CHR 0x0A # CHR '' '' # CHR '' '' # CHR 0x22 # rest)
   = parse_members (Suc f) (put_member k (JsonStr s) ms) (CHR 0x22 # rest)"
  by (subst parse_members.simps)
    (simp add: string_body_escape parse_value_string skip_ws_def is_json_ws_def)

lemma members_number_more:
  "parse_members (Suc (Suc f)) ms
     (CHR 0x22 # json_escape k @ CHR 0x22 # CHR '':'' # CHR '' '' # number_to_string n
      @ CHR '','' # CHR 0x0A # CHR '' '' # CHR '' '' # CHR 0x22 # rest)
   = parse_members (Suc f) (put_member k (JsonNum n) ms) (CHR 0x22 # rest)"
  by (subst parse_members.simps)
    (simp add: string_body_escape parse_value_number skip_ws_def is_json_ws_def)

lemma members_string_last:
  "parse_members (Suc (Suc f)) ms
     (CHR 0x22 # json_escape k @ CHR 0x22 # CHR '':'' # CHR '' '' # CHR 0x22 # json_escape s
      @ CHR 0x22 # CHR 0x0A # CHR ''}'' # rest)
   = Some (JsonObj (put_member k (JsonStr s) ms), rest)"
  by (subst parse_members.simps)
    (simp add: string_body_escape parse_value_string skip_ws_def is_json_ws_def)

lemma stringify_context_text:
  "stringify_context c =
     CHR ''{'' # CHR 0x0A # CHR '' '' # CHR '' '' #
     CHR 0x22 # json_escape ''profileId'' @ CHR 0x22 # CHR '':'' # CHR '' '' #
       CHR 0x22 # json_escape (profileId c) @ CHR 0x22 # CHR '','' # CHR 0x0A # CHR '' '' # CHR '' '' #
     CHR 0x22 # json_escape ''profileNumber'' @ CHR 0x22 # CHR '':'' # CHR '' '' #
       number_to_string (profileNumber c) @ CHR '','' # CHR 0x0A # CHR '' '' # CHR '' '' #
     CHR 0x22 # json_escape ''profileName'' @ CHR 0x22 # CHR '':'' # CHR '' '' #
       CHR 0x22 # json_escape (profileName c) @ CHR 0x22 # CHR '','' # CHR 0x0A # CHR '' '' # CHR '' '' #
     CHR 0x22 # json_escape ''region'' @ CHR 0x22 # CHR '':'' # CHR '' '' #
       CHR 0x22 # json_escape (contextRegion c) @ CHR 0x22 # CHR '','' # CHR 0x0A # CHR '' '' # CHR '' '' #
     CHR 0x22 # json_escape ''setAt'' @ CHR 0x22 # CHR '':'' # CHR '' '' #
       CHR 0x22 # json_escape (setAt c) @ CHR 0x22 # CHR 0x0A # CHR ''}'' # []"
  by (simp add: stringify_context_def json_member_def json_quote_def)

lemma parse_value_context:
  "parse_value (Suc (Suc (Suc (Suc (Suc (Suc (Suc f))))))) (stringify_context c)
     = Some (context_json c, [])"
  unfolding stringify_context_text
  apply (subst parse_value.simps)
  apply (simp add: skip_ws_def is_json_ws_def)
  apply (simp only: members_string_more members_number_more members_string_last)
  apply (simp add: put_member_def context_json_def)
  done

lemma stringify_context_length: "6 \<le> length (stringify_context c)"
  by (simp add: stringify_context_text)

lemma json_parse_stringify_context:
  "json_parse (stringify_context c) = Some (context_json c)"
proof -
  obtain f where "length (stringify_context c) = 6 + f"
    using stringify_context_length [of c] le_Suc_ex by blast
  then have "Suc (length (stringify_context c)) = Suc (Suc (Suc (Suc (Suc (Suc (Suc f))))))"
    by simp
  then show ?thesis
    unfolding json_parse_def by (simp only: parse_value_context) (simp add: skip_ws_def)
qed

section \<open>Reading and writing the context\<close>

lemma writeContext_succeeds:
  assumes "context_dir w \<or> \<not> fs_fault w Mkdir" and "\<not> fs_fault w WriteFile"
  shows "context_file (writeContext c w) = Some (stringify_context c)"
    and "fs_fault (writeContext c w) = fs_fault w"
  using assms
  by (auto simp: writeContext_def writeContext_try_def ensureContextDir_def logInfo_def)

text \<open>
  C6. When neither creating the directory nor writing nor reading the file fails,
  \<^verbatim>\<open>readContext\<close> right after \<^verbatim>\<open>writeContext c\<close> returns the object whose members
  \<^verbatim>\<open>profileId\<close>, \<^verbatim>\<open>profileNumber\<close>, \<^verbatim>\<open>profileName\<close>, \<^verbatim>\<open>region\<close> and \<^verbatim>\<open>setAt\<close> are
  those of \<open>c\<close>, whatever the strings contain.
\<close>

theorem write_then_read:
  assumes "context_dir w \<or> \<not> fs_fault w Mkdir" and "\<not> fs_fault w WriteFile"
    and "\<not> fs_fault w ReadFile"
  shows "fst (readContext (writeContext c w)) = context_json c
       \<and> property (fst (readContext (writeContext c w))) ''profileId'' = Some (JsonStr (profileId c))
       \<and> property (fst (readContext (writeContext c w))) ''profileNumber''
           = Some (JsonNum (profileNumber c))
       \<and> property (fst (readContext (writeContext c w))) ''profileName''
           = Some (JsonStr (profileName c))
       \<and> property (fst (readContext (writeContext c w))) ''region''
           = Some (JsonStr (contextRegion c))
       \<and> property (fst (readContext (writeContext c w))) ''setAt'' = Some (JsonStr (setAt c))"
proof -
  have "fst (readContext (writeContext c w)) = context_json c"
    using writeContext_succeeds [OF assms(1,2), of c] assms(3)
    by (simp add: readContext_def readContext_try_def json_parse_stringify_context)
  then show ?thesis by (simp add: context_json_def property_def)
qed

text \<open>A context whose name holds quotation marks, a backslash and a line feed.\<close>

theorem write_then_read_witness:
  "fst (readContext (writeContext beta_context fresh_world)) = context_json beta_context
   \<and> property (fst (readContext (writeContext beta_context fresh_world))) ''profileId''
       = Some (JsonStr ''b2'')
   \<and> property (fst (readContext (writeContext beta_context fresh_world))) ''profileNumber''
       = Some (JsonNum 2)
   \<and> property (fst (readContext (writeContext beta_context fresh_world))) ''profileName''
       = Some (JsonStr (''Beta '' @ dq @ ''EU'' @ dq @ [CHR 0x5C] @ nl))
   \<and> property (fst (readContext (writeContext beta_context fresh_world))) ''region''
       = Some (JsonStr ''UK'')
   \<and> property (fst (readContext (writeContext beta_context fresh_world))) ''setAt''
       = Some (JsonStr ''2026-01-06T09:00:00.000Z'')"
proof -
  have dir: "context_dir fresh_world \<or> \<not> fs_fault fresh_world Mkdir"
    and writable: "\<not> fs_fault fresh_world WriteFile"
    and readable: "\<not> fs_fault fresh_world ReadFile"
    by (simp_all add: fresh_world_def)
  show ?thesis
    using write_then_read [OF dir writable readable, of beta_context]
    by (simp add: beta_context_def context_json_def property_def)
qed

text \<open>
  C7. \<^verbatim>\<open>readContext\<close> has no exceptional outcome: when the file is missing, when reading
  it throws or when its text does not parse, the result is \<^verbatim>\<open>null\<close>, the unset context,
  and apart from a line in the log (none for a missing file) nothing changes.
\<close>

theorem readContext_degrades:
  assumes "context_file w = None \<or> fs_fault w ReadFile
           \<or> (\<exists>text. context_file w = Some text \<and> json_parse text = None)"
  shows "readContext w =
           (JsonNull, if context_file w = None then w
                      else logError ''Failed to read context file'' w)"
  using assms by (auto simp: readContext_def readContext_try_def split: option.splits)

lemma json_parse_truncated: "json_parse (CHR ''{'' # CHR 0x22 # ''profileId'') = None"
  by (simp add: json_parse_def parse_value.simps parse_members.simps skip_ws_def
        is_json_ws_def)

text \<open>No file, and a file cut off after its first key.\<close>

theorem readContext_degrades_witness:
  "readContext fresh_world = (JsonNull, fresh_world)
   \<and> readContext (fresh_world\<lparr>context_file := Some (CHR ''{'' # CHR 0x22 # ''profileId'')\<rparr>)
       = (JsonNull,
          logError ''Failed to read context file''
            (fresh_world\<lparr>context_file := Some (CHR ''{'' # CHR 0x22 # ''profileId'')\<rparr>))"
proof -
  let ?w = "fresh_world\<lparr>context_file := Some (CHR ''{'' # CHR 0x22 # ''profileId'')\<rparr>"
  have missing: "context_file fresh_world = None \<or> fs_fault fresh_world ReadFile
           \<or> (\<exists>text. context_file fresh_world = Some text \<and> json_parse text = None)"
    by (simp add: fresh_world_def)
  have corrupt: "context_file ?w = None \<or> fs_fault ?w ReadFile
           \<or> (\<exists>text. context_file ?w = Some text \<and> json_parse text = None)"
    by (simp add: json_parse_truncated)
  show ?thesis
    using readContext_degrades [OF missing] readContext_degrades [OF corrupt]
    by (simp add: fresh_world_def)
qed

text \<open>
  The scenario's second profile is activated and ready: \<^verbatim>\<open>set_current_profile("2")\<close>
  writes the context, and the context read back has the identifier \<^verbatim>\<open>b2\<close>.
\<close>

lemma scenario_resolves_two:
  "resolveProfileId scenario_rds (JStr ''2'') fresh_world =
     (Inr (Some \<lparr>resolved_id = ''b2'', resolved_name = ''Beta'', resolved_region = ''UK''\<rparr>),
      fresh_world\<lparr>sent := [listing_request]\<rparr>)"
  by (simp add: resolveProfileId_def reference_number_def parseInt_def is_space_def is_digit_def
        digits_value_def digit_value_def position_def scenario_listing mcp_profiles_def
        listing_response_def profile_a1_def profile_b2_def fresh_world_def)

lemma scenario_selects_two:
  "set_current_profile scenario_rds (single_argument ''profile_id'' (JStr ''2'')) fresh_world
     = (Inr (TextContent (context_set_text profile_b2)),
        writeContext \<lparr>profileId = ''b2'', profileNumber = 2, profileName = ''Beta'',
                       contextRegion = ''UK'', setAt = ''2026-01-06T09:00:00.000Z''\<rparr>
          (fresh_world\<lparr>sent := [listing_request, listing_request]\<rparr>))"
proof -
  let ?args = "single_argument ''profile_id'' (JStr ''2'')"
  let ?r = "\<lparr>resolved_id = ''b2'', resolved_name = ''Beta'', resolved_region = ''UK''\<rparr>"
  have resolved: "resolveProfileId scenario_rds (?args ''profile_id'') fresh_world
                    = (Inr (Some ?r), fresh_world\<lparr>sent := [listing_request]\<rparr>)"
    by (simp add: single_argument_def scenario_resolves_two)
  have fetched: "api_get scenario_rds ''/v1/mcp/profiles'' []
                   (fresh_world\<lparr>sent := [listing_request]\<rparr>)
                   = (Some listing_response,
                      fresh_world\<lparr>sent := [listing_request, listing_request]\<rparr>)"
    by (simp add: scenario_listing)
  have ok: "success listing_response"
    and listed: "data listing_response
                   = Some (McpProfilesData [profile_a1, profile_b2, profile_c3])"
    by (simp_all add: listing_response_def)
  have found: "find (\<lambda>p. id' p = resolved_id ?r) [profile_a1, profile_b2, profile_c3]
                 = Some profile_b2"
    by (simp add: profile_a1_def profile_b2_def)
  show ?thesis
    by (simp add: set_current_profile_found [where args = ?args, OF resolved fetched ok listed found])
       (simp add: profile_b2_def fresh_world_def reply_def)
qed

lemma scenario_persists_two:
  "property (fst (readContext (snd (set_current_profile scenario_rds
       (single_argument ''profile_id'' (JStr ''2'')) fresh_world)))) ''profileId''
     = Some (JsonStr ''b2'')"
proof -
  let ?w = "fresh_world\<lparr>sent := [listing_request, listing_request]\<rparr>"
  have "context_dir ?w \<or> \<not> fs_fault ?w Mkdir" "\<not> fs_fault ?w WriteFile" "\<not> fs_fault ?w ReadFile"
    by (simp_all add: fresh_world_def)
  then show ?thesis
    by (simp add: scenario_selects_two writeContext_succeeds readContext_def readContext_try_def
          json_parse_stringify_context context_json_def property_def)
qed

section \<open>The dispatcher and the not-ready response\<close>

text \<open>
  C3 fails on the code. A response of the \<^verbatim>\<open>data_not_ready\<close> shape has no \<^verbatim>\<open>data\<close>;
  \<^verbatim>\<open>get_performance\<close> of \<^verbatim>\<open>index.ts\<close> never reads \<^verbatim>\<open>data_not_ready\<close> and prints the
  response as an error, with or without an estimate, where \<^verbatim>\<open>get_performance\<close> of
  \<^verbatim>\<open>tools/reports.ts\<close> prints the not-ready text.
\<close>

theorem get_performance_not_ready_as_error:
  assumes "api_get rds ''/v1/amazon/reports/performance''
             [(''profile_id'', args ''profile_id''), (''start_date'', args ''start_date''),
              (''end_date'', args ''end_date'')] w = (Some response, w1)"
    and "data_not_ready response" and "data response = None"
  shows "get_performance r rds args w =
           (Inr (TextContent (''Error: '' @ or_else (error response) ''Failed to fetch performance'')),
            w1)
       \<and> report_get_performance summary rds args w =
           (Inr (TextContent (data_not_ready_text response)), w1)"
  using assms
  by (simp add: get_performance_def report_get_performance_def on_response_def error_reply_def
        reply_def)

lemma importing_performance:
  "api_get (importing_rds minutes) ''/v1/amazon/reports/performance''
     [(''profile_id'', performance_arguments ''profile_id''),
      (''start_date'', performance_arguments ''start_date''),
      (''end_date'', performance_arguments ''end_date'')] fresh_world
   = (Some (not_ready_response minutes), fresh_world\<lparr>sent := [performance_request]\<rparr>)"
  by (simp add: api_get_def api_request_def importing_rds_def performance_arguments_def
        performance_request_def fresh_world_def)

text \<open>
  The not-ready shape with an estimate of 12 minutes and without an estimate: the server
  prints \<^verbatim>\<open>Error: Failed to fetch performance\<close> for both.
\<close>

theorem get_performance_not_ready_as_error_witness:
  "get_performance plain_render (importing_rds (Some 12)) performance_arguments fresh_world =
     (Inr (TextContent ''Error: Failed to fetch performance''),
      fresh_world\<lparr>sent := [performance_request]\<rparr>)
   \<and> report_get_performance (\<lambda>s e cs. []) (importing_rds (Some 12)) performance_arguments
       fresh_world =
     (Inr (TextContent (''**Data Not Yet Available**'' @ nl @ nl
                        @ ''Profile data is still being imported'' @ nl @ nl
                        @ ''Estimated time: ~12 minutes.'')),
      fresh_world\<lparr>sent := [performance_request]\<rparr>)
   \<and> get_performance plain_render (importing_rds None) performance_arguments fresh_world =
     (Inr (TextContent ''Error: Failed to fetch performance''),
      fresh_world\<lparr>sent := [performance_request]\<rparr>)
   \<and> report_get_performance (\<lambda>s e cs. []) (importing_rds None) performance_arguments
       fresh_world =
     (Inr (TextContent (''**Data Not Yet Available**'' @ nl @ nl
                        @ ''Profile data is still being imported'' @ nl @ nl
                        @ ''Please try again later.'')),
      fresh_world\<lparr>sent := [performance_request]\<rparr>)"
proof -
  have shape: "data_not_ready (not_ready_response minutes)"
    "data (not_ready_response minutes) = None" for minutes
    by (simp_all add: not_ready_response_def)
  have twelve: "number_to_string 12 = ''12''"
    by (simp add: number_to_string_def nat_to_string.simps digit_char_def)
  show ?thesis
    using get_performance_not_ready_as_error
            [where args = performance_arguments and r = plain_render
               and summary = "\<lambda>s e cs. []",
             OF importing_performance [of "Some 12"] shape [of "Some 12"]]
          get_performance_not_ready_as_error
            [where args = performance_arguments and r = plain_render
               and summary = "\<lambda>s e cs. []",
             OF importing_performance [of None] shape [of None]]
    by (simp add: not_ready_response_def or_else_def data_not_ready_text_def minutes_given_def
          twelve)
qed

































text \<open>
  C10. For a name that is none of the registered tool names the handler returns the text
  \<^verbatim>\<open>Unknown tool: \<close> followed by the name, and the state is untouched: no request is
  sent, nothing is logged, the context file is not written.
\<close>

theorem call_tool_unknown:
  assumes "tool \<notin> set tool_names"
  shows "call_tool r rds tool args w = (TextContent (''Unknown tool: '' @ tool), w)"
  using assms by (simp add: call_tool_def call_tool_try_def tool_names_def reply_def)

text \<open>A tool the server does not register.\<close>

theorem call_tool_unknown_witness:
  "call_tool plain_render scenario_rds ''clear_current_profile'' (\<lambda>k. JUndefined) fresh_world
     = (TextContent ''Unknown tool: clear_current_profile'', fresh_world)"
proof -
  have "''clear_current_profile'' \<notin> set tool_names" by (simp add: tool_names_def)
  then show ?thesis using call_tool_unknown by simp
qed

end
